theory Spec2Isabelle
  imports Complex_Main
begin

section \<open>Python values and errors\<close>

text \<open>
  The exceptions the modelled code can raise. Every function of the embedding that can
  raise returns \<open>py_error + 'a\<close>, with \<open>Inl\<close> for the exception.

  \<open>NotFinite\<close> is not a Python exception. Poses, recorded data and stored factors are
  modelled as real numbers; where numpy arithmetic would put an infinity or a NaN into
  such a value (the code goes on with it, at most printing a RuntimeWarning), the model
  stops with \<open>NotFinite\<close>. \<open>Blocked\<close> is no exception either: it stands for a blocking
  read of a port on which no further value arrives.
\<close>

datatype py_error =
  IndexError | TypeError | ValueError | ZeroDivisionError | UnboundLocalError
  | NotFinite | Blocked | OverflowError

definition bindE :: "'e + 'a \<Rightarrow> ('a \<Rightarrow> 'e + 'b) \<Rightarrow> 'e + 'b" where
  "bindE m f = (case m of Inl e \<Rightarrow> Inl e | Inr x \<Rightarrow> f x)"

text \<open>
  Python list indexing \<open>xs[i]\<close>: a negative index counts from the end, an index out of
  range raises IndexError.
\<close>

definition py_index :: "'a list \<Rightarrow> int \<Rightarrow> py_error + 'a" where
  "py_index xs i =
     (if 0 \<le> i \<and> i < int (length xs) then Inr (xs ! nat i)
      else if i < 0 \<and> - int (length xs) \<le> i then Inr (xs ! nat (int (length xs) + i))
      else Inl IndexError)"

section \<open>Floating-point scalars with infinities and NaN\<close>

text \<open>
  Scalars that the code lets become infinite or NaN (\<open>float('inf')\<close>, divisions whose
  divisor can vanish, values tested with \<open>np.isnan\<close>) are modelled by \<open>fl\<close>: a real
  number, plus or minus infinity, or NaN, with the IEEE 754 rules for the special values
  as numpy applies them. The operations of this section do not round or overflow, and the
  sign of zero is not modelled: a non-zero number divided by zero gives the infinity with
  the sign of the numerator.
\<close>

datatype fl = Fin real | PInf | MInf | NaN

fun is_nan :: "fl \<Rightarrow> bool" where
  "is_nan NaN = True"
| "is_nan _ = False"

fun is_fin :: "fl \<Rightarrow> bool" where
  "is_fin (Fin x) = True"
| "is_fin _ = False"

text \<open>The infinity with the sign of \<open>x\<close>; NaN when \<open>x\<close> is zero.\<close>

definition inf_signed :: "real \<Rightarrow> fl" where
  "inf_signed x = (if 0 < x then PInf else if x < 0 then MInf else NaN)"

fun fl_neg :: "fl \<Rightarrow> fl" where
  "fl_neg (Fin x) = Fin (- x)"
| "fl_neg PInf = MInf"
| "fl_neg MInf = PInf"
| "fl_neg NaN = NaN"

fun fl_add :: "fl \<Rightarrow> fl \<Rightarrow> fl" where
  "fl_add NaN _ = NaN"
| "fl_add _ NaN = NaN"
| "fl_add (Fin x) (Fin y) = Fin (x + y)"
| "fl_add PInf MInf = NaN"
| "fl_add MInf PInf = NaN"
| "fl_add PInf _ = PInf"
| "fl_add _ PInf = PInf"
| "fl_add MInf _ = MInf"
| "fl_add _ MInf = MInf"

definition fl_sub :: "fl \<Rightarrow> fl \<Rightarrow> fl" where
  "fl_sub a b = fl_add a (fl_neg b)"

fun fl_mul :: "fl \<Rightarrow> fl \<Rightarrow> fl" where
  "fl_mul NaN _ = NaN"
| "fl_mul _ NaN = NaN"
| "fl_mul (Fin x) (Fin y) = Fin (x * y)"
| "fl_mul (Fin x) PInf = inf_signed x"
| "fl_mul (Fin x) MInf = inf_signed (- x)"
| "fl_mul PInf (Fin y) = inf_signed y"
| "fl_mul MInf (Fin y) = inf_signed (- y)"
| "fl_mul PInf PInf = PInf"
| "fl_mul MInf MInf = PInf"
| "fl_mul PInf MInf = MInf"
| "fl_mul MInf PInf = MInf"

text \<open>
  numpy's division: a finite number divided by an infinity is zero, zero divided by zero
  and an infinity divided by an infinity are NaN, and no exception is raised.
\<close>

fun fl_div :: "fl \<Rightarrow> fl \<Rightarrow> fl" where
  "fl_div NaN _ = NaN"
| "fl_div _ NaN = NaN"
| "fl_div (Fin x) (Fin y) = (if y = 0 then inf_signed x else Fin (x / y))"
| "fl_div (Fin x) PInf = Fin 0"
| "fl_div (Fin x) MInf = Fin 0"
| "fl_div PInf (Fin y) = (if 0 \<le> y then PInf else MInf)"
| "fl_div MInf (Fin y) = (if 0 \<le> y then MInf else PInf)"
| "fl_div PInf PInf = NaN"
| "fl_div PInf MInf = NaN"
| "fl_div MInf PInf = NaN"
| "fl_div MInf MInf = NaN"

fun fl_abs :: "fl \<Rightarrow> fl" where
  "fl_abs (Fin x) = Fin \<bar>x\<bar>"
| "fl_abs PInf = PInf"
| "fl_abs MInf = PInf"
| "fl_abs NaN = NaN"

text \<open>The comparison \<open>a < b\<close>: false whenever one side is NaN.\<close>

fun fl_lt :: "fl \<Rightarrow> fl \<Rightarrow> bool" where
  "fl_lt NaN _ = False"
| "fl_lt _ NaN = False"
| "fl_lt (Fin x) (Fin y) = (x < y)"
| "fl_lt (Fin x) PInf = True"
| "fl_lt MInf (Fin y) = True"
| "fl_lt MInf PInf = True"
| "fl_lt _ _ = False"

text \<open>\<open>np.sign\<close>: -1, 0 or 1, and NaN for NaN.\<close>

fun fl_sign :: "fl \<Rightarrow> fl" where
  "fl_sign (Fin x) = Fin (sgn x)"
| "fl_sign PInf = Fin 1"
| "fl_sign MInf = Fin (- 1)"
| "fl_sign NaN = NaN"

text \<open>
  \<open>np.tan\<close>: NaN at an infinity. At a pole of the tangent, which no floating-point number
  hits exactly, the float result is a huge number; the model gives infinity there.
\<close>

fun fl_tan :: "fl \<Rightarrow> fl" where
  "fl_tan (Fin x) = (if cos x = 0 then PInf else Fin (tan x))"
| "fl_tan _ = NaN"

text \<open>\<open>np.arctan\<close>: plus or minus \<open>pi / 2\<close> at the infinities.\<close>

fun fl_arctan :: "fl \<Rightarrow> fl" where
  "fl_arctan (Fin x) = Fin (arctan x)"
| "fl_arctan PInf = Fin (pi / 2)"
| "fl_arctan MInf = Fin (- (pi / 2))"
| "fl_arctan NaN = NaN"

text \<open>\<open>np.exp\<close>.\<close>

fun fl_exp :: "fl \<Rightarrow> fl" where
  "fl_exp (Fin x) = Fin (exp x)"
| "fl_exp PInf = PInf"
| "fl_exp MInf = Fin 0"
| "fl_exp NaN = NaN"

text \<open>\<open>np.clip(x, -1.0, 1.0)\<close> and \<open>np.arccos\<close>, which is NaN outside \<open>[-1, 1]\<close>.\<close>

fun fl_clip :: "fl \<Rightarrow> fl" where
  "fl_clip (Fin x) = Fin (max (- 1) (min 1 x))"
| "fl_clip PInf = Fin 1"
| "fl_clip MInf = Fin (- 1)"
| "fl_clip NaN = NaN"

fun fl_arccos :: "fl \<Rightarrow> fl" where
  "fl_arccos (Fin x) = (if - 1 \<le> x \<and> x \<le> 1 then Fin (arccos x) else NaN)"
| "fl_arccos _ = NaN"

text \<open>
  \<open>a.min()\<close> for an array of floats: NaN as soon as one entry is NaN, ValueError on an
  array of size zero.
\<close>

fun fl_min2 :: "fl \<Rightarrow> fl \<Rightarrow> fl" where
  "fl_min2 NaN _ = NaN"
| "fl_min2 _ NaN = NaN"
| "fl_min2 a b = (if fl_lt b a then b else a)"

text \<open>A value that has to be a finite number to enter a pose or a stored factor.\<close>

fun to_real :: "fl \<Rightarrow> py_error + real" where
  "to_real (Fin x) = Inr x"
| "to_real _ = Inl NotFinite"

text \<open>Sum and dot product of arrays (\<open>np.sum\<close>, \<open>a @ b\<close> for one-dimensional arrays).\<close>

fun fl_sum :: "fl list \<Rightarrow> fl" where
  "fl_sum [] = Fin 0"
| "fl_sum (x # xs) = fl_add x (fl_sum xs)"

definition fl_dot :: "fl list \<Rightarrow> fl list \<Rightarrow> fl" where
  "fl_dot xs ys = fl_sum (map2 fl_mul xs ys)"

definition np_min :: "fl list \<Rightarrow> py_error + fl" where
  "np_min xs = (case xs of [] \<Rightarrow> Inl ValueError | x # rest \<Rightarrow> Inr (foldl fl_min2 x rest))"

section \<open>Rounding to IEEE 754 doubles\<close>

text \<open>
  Two places of the code are modelled with the rounding and the overflow of double
  arithmetic, because claims depend on them: the moving average of the correction factors
  (\<open>pass_to_next_goal\<close>) and the norm of a quaternion (\<open>Quat.norm\<close>). A double is a
  real number \<open>m * 2 ^ e\<close> with an integer \<open>m\<close> of magnitude below \<open>2 ^ 53\<close> and
  \<open>e \<ge> -1074\<close>, of magnitude below \<open>2 ^ 1024\<close>; every operation returns the double nearest
  to the exact result, the one with the even significand when two are equally near.
\<close>

text \<open>The nearest integer, the even one at a tie.\<close>

definition round_half_even :: "real \<Rightarrow> int" where
  "round_half_even x =
     (let n = \<lfloor>x\<rfloor>; d = x - of_int n
      in if d < 1 / 2 then n else if 1 / 2 < d then n + 1
         else if even n then n else n + 1)"

text \<open>
  The exponent of the last place of the doubles around \<open>x\<close>: 52 below the exponent of
  \<open>x\<close>, and -1074 in the subnormal range.
\<close>

definition double_exponent :: "real \<Rightarrow> int" where
  "double_exponent x = max \<lfloor>log 2 \<bar>x\<bar>\<rfloor> (- 1022) - 52"

text \<open>
  Rounding to nearest, ties to even, with an unbounded exponent range above: a result of
  magnitude \<open>2 ^ 1024\<close> or more stands for an overflow.
\<close>

definition round_double :: "real \<Rightarrow> real" where
  "round_double x =
     (if x = 0 then 0
      else of_int (round_half_even (x / 2 powi double_exponent x)) * 2 powi double_exponent x)"

text \<open>
  The result of an operation that has to be a finite number to be stored in a factor:
  on overflow Python and numpy go on with an infinity, which the model does not follow.
\<close>

definition to_double :: "real \<Rightarrow> py_error + real" where
  "to_double x =
     (if 2 ^ 1024 \<le> \<bar>round_double x\<bar> then Inl NotFinite else Inr (round_double x))"






section \<open>Vectors, rotation matrices and poses\<close>

text \<open>
  Odometry poses are 4x4 homogeneous transforms \<open>[[R, t], [0, 0, 0, 1]]\<close>. The model keeps
  the 3x3 block \<open>R\<close> (rows first) and the column \<open>t\<close>, named after the accessors
  \<open>t3d_ext.edR\<close> and \<open>t3d_ext.edt\<close>. Floating-point numbers are modelled as reals.
\<close>

type_synonym vec3 = "real \<times> real \<times> real"
type_synonym mat3 = "vec3 \<times> vec3 \<times> vec3"

record pose =
  edR :: mat3
  edt :: vec3

fun vadd :: "vec3 \<Rightarrow> vec3 \<Rightarrow> vec3" where
  "vadd (a, b, c) (x, y, z) = (a + x, b + y, c + z)"

fun vsub :: "vec3 \<Rightarrow> vec3 \<Rightarrow> vec3" where
  "vsub (a, b, c) (x, y, z) = (a - x, b - y, c - z)"

fun vneg :: "vec3 \<Rightarrow> vec3" where
  "vneg (a, b, c) = (- a, - b, - c)"

fun vscale :: "real \<Rightarrow> vec3 \<Rightarrow> vec3" where
  "vscale k (a, b, c) = (k * a, k * b, k * c)"

fun vdot :: "vec3 \<Rightarrow> vec3 \<Rightarrow> real" where
  "vdot (a, b, c) (x, y, z) = a * x + b * y + c * z"

text \<open>\<open>np.dot(M, v)\<close> for a 3x3 matrix and a vector.\<close>

fun mat_vec :: "mat3 \<Rightarrow> vec3 \<Rightarrow> vec3" where
  "mat_vec (r0, r1, r2) v = (vdot r0 v, vdot r1 v, vdot r2 v)"

fun mat_col :: "mat3 \<Rightarrow> nat \<Rightarrow> vec3" where
  "mat_col ((a, b, c), (d, e, f), (g, h, i)) n =
     (if n = 0 then (a, d, g) else if n = 1 then (b, e, h) else (c, f, i))"

text \<open>\<open>np.dot(A, B)\<close> for two 3x3 matrices.\<close>

fun mat_mul :: "mat3 \<Rightarrow> mat3 \<Rightarrow> mat3" where
  "mat_mul (r0, r1, r2) B =
     ((vdot r0 (mat_col B 0), vdot r0 (mat_col B 1), vdot r0 (mat_col B 2)),
      (vdot r1 (mat_col B 0), vdot r1 (mat_col B 1), vdot r1 (mat_col B 2)),
      (vdot r2 (mat_col B 0), vdot r2 (mat_col B 1), vdot r2 (mat_col B 2)))"

definition mat_transpose :: "mat3 \<Rightarrow> mat3" where
  "mat_transpose M = (mat_col M 0, mat_col M 1, mat_col M 2)"

definition mat_id :: mat3 where
  "mat_id = ((1, 0, 0), (0, 1, 0), (0, 0, 1))"

text \<open>
  Modelled from the spec: \<open>t3d_ext.norm\<close>, the Euclidean norm of a translation
  (the pose algebra's "translation-norm-of"; \<open>pf_drive.util.t3d_ext\<close> is not among the
  sources).
\<close>

fun t3d_norm :: "vec3 \<Rightarrow> real" where
  "t3d_norm (a, b, c) = sqrt (a * a + b * b + c * c)"

text \<open>
  The matrix product \<open>A @ B\<close> of two homogeneous transforms:
  \<open>[[RA, tA], [0, 1]] @ [[RB, tB], [0, 1]] = [[RA RB, RA tB + tA], [0, 1]]\<close>.
\<close>

definition compose :: "pose \<Rightarrow> pose \<Rightarrow> pose" where
  "compose A B =
     \<lparr>edR = mat_mul (edR A) (edR B), edt = vadd (mat_vec (edR A) (edt B)) (edt A)\<rparr>"

text \<open>
  Modelled from the spec: \<open>t3d_ext.einv\<close>, the pose algebra's "invert a pose": the
  inverse of the rigid transform \<open>[[R, t], [0, 1]]\<close> is \<open>[[R\<^sup>T, - R\<^sup>T t], [0, 1]]\<close>.
\<close>

definition einv :: "pose \<Rightarrow> pose" where
  "einv A =
     \<lparr>edR = mat_transpose (edR A), edt = vneg (mat_vec (mat_transpose (edR A)) (edt A))\<rparr>"

text \<open>\<open>math.atan2(y, x)\<close>.\<close>

definition atan2 :: "real \<Rightarrow> real \<Rightarrow> real" where
  "atan2 y x =
     (if 0 < x then arctan (y / x)
      else if x < 0 \<and> 0 \<le> y then arctan (y / x) + pi
      else if x < 0 then arctan (y / x) - pi
      else if 0 < y then pi / 2
      else if y < 0 then - (pi / 2)
      else 0)"

text \<open>
  \<open>transforms3d.euler.mat2euler(M)[2]\<close> with the default axes \<open>sxyz\<close>: the rotation about
  the z axis, \<open>atan2(M[1, 0], M[0, 0])\<close>, or 0 at the singularity where the first column's
  x and y entries vanish (below four machine epsilons).
\<close>

definition mat2euler_z :: "mat3 \<Rightarrow> real" where
  "mat2euler_z M =
     (case M of ((m00, m01, m02), (m10, m11, m12), (m20, m21, m22)) \<Rightarrow>
        if sqrt (m00 * m00 + m10 * m10) > 4 / 2 ^ 52 then atan2 m10 m00 else 0)"

text \<open>\<open>transforms3d.euler.euler2mat(0, 0, theta)\<close>: the rotation by theta about z.\<close>

definition euler2mat_z :: "real \<Rightarrow> mat3" where
  "euler2mat_z theta =
     ((cos theta, - sin theta, 0), (sin theta, cos theta, 0), (0, 0, 1))"

section \<open>Ackermann geometry\<close>

record ackermann_cfg =
  track :: real
  wheelbase :: real
  wheel_radius :: real
  max_steering_angle :: real

text \<open>
  \<open>self.R_min_abs = self.d / np.tan(self.max_phi) + self.l / 2\<close>, the same line in the
  actuator and in the controller.
\<close>

definition R_min_abs :: "'a ackermann_cfg_scheme \<Rightarrow> fl" where
  "R_min_abs c =
     fl_add (fl_div (Fin (wheelbase c)) (fl_tan (Fin (max_steering_angle c))))
            (Fin (track c / 2))"

section \<open>The Ackermann actuator\<close>

text \<open>
  The commands of the \<open>command\<close> port: \<open>('vw', v, w)\<close> and \<open>('vphi', v, phi)\<close>.
\<close>

datatype command = VW fl fl | VPhi fl fl

text \<open>
  Lines 149 to 166 of \<open>run\<close>: the turning radius of the command, infinite when \<open>w\<close> or
  \<open>phi\<close> is within 1e-3 of zero, is replaced by the signed minimum radius when its
  magnitude is smaller, and gives the two steering angles and the rear wheel speed.
  The result is \<open>((phi_l, phi_r, w_rear), (v, R))\<close>.
\<close>

definition command_radius :: "'a ackermann_cfg_scheme \<Rightarrow> command \<Rightarrow> fl \<times> fl \<times> fl" where
  "command_radius c cmd =
     (case cmd of
        VW v w \<Rightarrow>
          (let sgn = fl_mul (fl_sign (fl_add v (Fin (1 / 1000))))
                            (fl_sign (fl_add w (Fin (1 / 1000))));
               R_min = fl_mul sgn (R_min_abs c);
               R = (if fl_lt (fl_abs w) (Fin (1 / 1000)) then PInf else fl_div v w)
           in (v, R_min, R))
      | VPhi v phi \<Rightarrow>
          (let sgn = fl_mul (fl_sign (fl_add v (Fin (1 / 1000))))
                            (fl_sign (fl_add phi (Fin (1 / 1000))));
               R_min = fl_mul sgn (R_min_abs c);
               R = (if fl_lt (fl_abs phi) (Fin (1 / 1000)) then PInf
                    else fl_div (Fin (wheelbase c)) (fl_tan phi))
           in (v, R_min, R)))"

definition wheel_setpoints ::
  "'a ackermann_cfg_scheme \<Rightarrow> command \<Rightarrow> (fl \<times> fl \<times> fl) \<times> (fl \<times> fl)" where
  "wheel_setpoints c cmd =
     (case command_radius c cmd of (v, R_min, R0) \<Rightarrow>
        (let R = (if fl_lt (fl_abs R0) (fl_abs R_min) then R_min else R0);
             phi_l = fl_arctan (fl_div (Fin (wheelbase c)) (fl_add R (Fin (track c / 2))));
             phi_r = fl_arctan (fl_div (Fin (wheelbase c)) (fl_sub R (Fin (track c / 2))));
             w_rear = fl_div v (Fin (wheel_radius c))
         in ((phi_l, phi_r, w_rear), (v, R))))"

text \<open>
  \<open>calc_and_output_odom(v, R, dt)\<close> on the stored pose \<open>self.odom\<close>; the result is the
  pose stored and written to the odom port.
\<close>

definition calc_and_output_odom :: "fl \<Rightarrow> fl \<Rightarrow> real \<Rightarrow> pose \<Rightarrow> py_error + pose" where
  "calc_and_output_odom v R dt odom =
     (let dist = fl_mul v (Fin dt);
          odom_R = edR odom
      in if fl_lt (Fin (10 ^ 9)) R
         then bindE (to_real dist) (\<lambda>d.
                Inr (odom\<lparr>edt := vadd (edt odom) (mat_vec odom_R (d, 0, 0))\<rparr>))
         else bindE (to_real (fl_div dist R)) (\<lambda>theta.
              bindE (to_real R) (\<lambda>Rr.
                (let rot = euler2mat_z theta;
                     PR = mat_vec odom_R (0, Rr, 0);
                     RT = vneg (mat_vec rot PR)
                 in Inr \<lparr>edR = mat_mul rot odom_R,
                         edt = vadd (edt odom) (vadd PR RT)\<rparr>))))"

text \<open>One command executed by \<open>run\<close>: the setpoints sent, and the odometry integrated.\<close>

definition execute_command ::
  "'a ackermann_cfg_scheme \<Rightarrow> command \<Rightarrow> real \<Rightarrow> pose
     \<Rightarrow> (fl \<times> fl \<times> fl) \<times> (py_error + pose)" where
  "execute_command c cmd dt odom =
     (case wheel_setpoints c cmd of
        (setpoints, (v, R)) \<Rightarrow> (setpoints, calc_and_output_odom v R dt odom))"

section \<open>Frames from pose messages (\<open>tr_drive.util.geometry\<close>)\<close>









section \<open>The repeat controller: configuration and state\<close>

record config = ackermann_cfg +
  horizontal_fov :: real
  along_path_radius :: nat
  steering_predict_goals :: nat
  steering_weights :: "real list"
  slowing_predict_goals :: nat
  k_rotation :: real
  k_along_path :: real
  initial_compensation_rotation_update_rate :: real
  initial_compensation_translation_update_rate :: real
  initial_compensation_rotation_threshold :: real
  initial_compensation_translation_threshold :: real
  distance_threshold :: real
  reference_velocity :: real

definition max_rps :: "config \<Rightarrow> nat" where
  "max_rps c =
     max (along_path_radius c) (max (steering_predict_goals c) (slowing_predict_goals c))"

definition max_rp :: "config \<Rightarrow> nat" where
  "max_rp c = max (along_path_radius c) (steering_predict_goals c)"

definition q_r :: "config \<Rightarrow> nat" where
  "q_r c = along_path_radius c"

definition q_size :: "config \<Rightarrow> nat" where
  "q_size c = along_path_radius c + 1 + max_rps c"

text \<open>
  The controller's fields. The window \<open>q\<close> holds \<open>(image, odom)\<close> pairs or \<open>None\<close>.
  The two output ports are kept as the lists of the values written so far:
  \<open>passed_goal\<close> (a goal index, or \<open>None\<close> as the end signal) and
  \<open>actuator_command\<close>. \<open>timer_P\<close> is the local variable of \<open>run\<close> that holds the
  time of the last correction.
\<close>

record 'img controller =
  q :: "('img \<times> pose) option list"
  goal_distances :: "real list"
  goal_idx :: int
  T_0_odomA :: "pose option"
  T_0_odomB :: "pose option"
  record_T_odomA_odomB :: "pose option"
  record_T_odomA_odomB_rotation :: "real option"
  record_T_odomA_odomB_translation :: "real option"
  initial_compensation_rotation_factor :: real
  initial_compensation_translation_factor :: real
  passed_goal :: "int option list"
  actuator_command :: "command list"
  timer_P :: real

text \<open>
  The fields after \<open>__init__\<close>, with the window filled with \<open>None\<close> as \<open>run\<close> does
  before its first advance (\<open>self.q.q = [None] * self.q_size\<close>).
\<close>

definition init_controller :: "config \<Rightarrow> 'img controller" where
  "init_controller c =
     \<lparr>q = replicate (q_size c) None,
      goal_distances = [0],
      goal_idx = - int (max_rps c) - 1,
      T_0_odomA = None,
      T_0_odomB = None,
      record_T_odomA_odomB = None,
      record_T_odomA_odomB_rotation = None,
      record_T_odomA_odomB_translation = None,
      initial_compensation_rotation_factor = 1,
      initial_compensation_translation_factor = 1,
      passed_goal = [],
      actuator_command = [],
      timer_P = 0\<rparr>"

text \<open>
  Modelled from the spec: \<open>ListQueue.push\<close> (\<open>pf_drive.util.ListQueue\<close> is not among the
  sources), the fixed-capacity window: the oldest entry leaves at the front and the new
  one enters at the back.
\<close>

definition push :: "'a \<Rightarrow> 'a list \<Rightarrow> 'a list" where
  "push x xs = tl xs @ [x]"

section \<open>The sliding-window tracker: \<open>pass_to_next_goal\<close>\<close>

text \<open>
  Lines 96 to 102: once both anchor estimates exist, the correction achieved on the last
  segment updates the two initial-compensation factors by an exponential moving average.
  The conditional expressions test the recorded magnitude first; the quotient is only
  computed when the test succeeds. A recorded value that is still \<open>None\<close> raises
  TypeError in \<open>abs\<close> or in the comparison. A zero divisor, which a negative threshold
  lets through, raises ZeroDivisionError for the yaw (two Python floats) and gives an
  infinite or NaN factor for the length (a numpy float).

  The pose algebra that gives the yaw and the length is exact in the model; the scalar
  operations of these lines round to doubles. \<open>moving_average\<close> is the expression
  \<open>rate * sample + (1 - rate) * old\<close> of lines 101 and 102, evaluated as Python does:
  the product, the difference, the second product and the sum, each rounded.
\<close>


definition moving_average :: "real \<Rightarrow> real \<Rightarrow> real \<Rightarrow> py_error + real" where
  "moving_average rate sample old =
     bindE (to_double (rate * sample)) (\<lambda>t1.
     bindE (to_double (1 - rate)) (\<lambda>t2.
     bindE (to_double (t2 * old)) (\<lambda>t3.
       to_double (t1 + t3))))"

definition update_factors :: "config \<Rightarrow> 'img controller \<Rightarrow> py_error + 'img controller" where
  "update_factors c s =
     (case (T_0_odomA s, T_0_odomB s) of
        (Some A, Some B) \<Rightarrow>
          (let corrected_T_odomA_odomB = compose (einv A) B in
           bindE (case record_T_odomA_odomB_rotation s of
                    None \<Rightarrow> Inl TypeError
                  | Some rr \<Rightarrow>
                      if \<bar>rr\<bar> > initial_compensation_rotation_threshold c
                      then (if rr = 0 then Inl ZeroDivisionError
                            else to_double (mat2euler_z (edR corrected_T_odomA_odomB) / rr))
                      else Inr (initial_compensation_rotation_factor s))
             (\<lambda>rotation_factor.
           bindE (case record_T_odomA_odomB_translation s of
                    None \<Rightarrow> Inl TypeError
                  | Some rt \<Rightarrow>
                      if rt > initial_compensation_translation_threshold c
                      then (if rt = 0 then Inl NotFinite
                            else to_double (t3d_norm (edt corrected_T_odomA_odomB) / rt))
                      else Inr (initial_compensation_translation_factor s))
             (\<lambda>translation_factor.
           bindE (moving_average (initial_compensation_rotation_update_rate c)
                    rotation_factor (initial_compensation_rotation_factor s))
             (\<lambda>new_rotation_factor.
           bindE (moving_average (initial_compensation_translation_update_rate c)
                    translation_factor (initial_compensation_translation_factor s))
             (\<lambda>new_translation_factor.
           Inr (s\<lparr>initial_compensation_rotation_factor := new_rotation_factor,
                   initial_compensation_translation_factor := new_translation_factor\<rparr>))))))
      | _ \<Rightarrow> Inr s)"

text \<open>
  Lines 104 to 120, for the recorded poses \<open>recA\<close> and \<open>recB\<close> at the window slots
  \<open>q_r\<close> and \<open>q_r + 1\<close>: \<open>T_0_odomB\<close> is read from the odom port when it has no value yet
  (\<open>odom_read\<close> is the value the blocking read returns), the anchor A takes the value of
  B, the recorded transform between the anchors is cached with its yaw and its length,
  and the new estimate of B is A composed with the recorded transform, pre-scaled by the
  factors where the recorded magnitude exceeds its threshold.
\<close>

definition update_anchors ::
  "config \<Rightarrow> pose \<Rightarrow> pose \<Rightarrow> pose \<Rightarrow> 'img controller \<Rightarrow> 'img controller" where
  "update_anchors c odom_read recA recB s =
     (let B = (case T_0_odomB s of None \<Rightarrow> odom_read | Some B \<Rightarrow> B);
          A = B;
          rec = compose (einv recA) recB;
          rec_rotation = mat2euler_z (edR rec);
          rec_translation = t3d_norm (edt rec);
          T1 = (if rec_rotation > initial_compensation_rotation_threshold c
                then rec\<lparr>edR := euler2mat_z
                       (mat2euler_z (edR rec) * initial_compensation_rotation_factor s)\<rparr>
                else rec);
          T2 = (if rec_translation > initial_compensation_translation_threshold c
                then T1\<lparr>edt := vscale (initial_compensation_translation_factor s) (edt T1)\<rparr>
                else T1)
      in s\<lparr>T_0_odomA := Some A,
            T_0_odomB := Some (compose A T2),
            record_T_odomA_odomB := Some rec,
            record_T_odomA_odomB_rotation := Some rec_rotation,
            record_T_odomA_odomB_translation := Some rec_translation\<rparr>)"

text \<open>
  Lines 122 to 125: when the two newest window entries are waypoints, the cumulative
  distance grows by the norm of the difference of their translations
  (\<open>t3d_ext.edt\<close> of the difference of the two matrices).
\<close>

definition update_goal_distances :: "'img controller \<Rightarrow> py_error + 'img controller" where
  "update_goal_distances s =
     bindE (py_index (q s) (- 2)) (\<lambda>q2.
       case q2 of
         None \<Rightarrow> Inr s
       | Some (img2, odom2) \<Rightarrow>
           bindE (py_index (q s) (- 1)) (\<lambda>q1.
             case q1 of
               None \<Rightarrow> Inr s
             | Some (img1, odom1) \<Rightarrow>
                 bindE (py_index (goal_distances s) (- 1)) (\<lambda>d.
                   Inr (s\<lparr>goal_distances := goal_distances s
                             @ [d + t3d_norm (vsub (edt odom1) (edt odom2))]\<rparr>))))"

text \<open>
  Lines 86 to 91: the value read from the record port (a waypoint, or \<open>None\<close> once the
  loader has run out) enters the window, the goal index grows by one and is written to
  the \<open>passed_goal\<close> port once it is not negative.
\<close>

definition advance_cursor :: "('img \<times> pose) option \<Rightarrow> 'img controller \<Rightarrow> 'img controller" where
  "advance_cursor rec s0 =
     (let s1 = s0\<lparr>q := push rec (q s0)\<rparr>;
          s2 = s1\<lparr>goal_idx := goal_idx s1 + 1\<rparr>
      in if goal_idx s2 \<ge> 0
         then s2\<lparr>passed_goal := passed_goal s2 @ [Some (goal_idx s2)]\<rparr>
         else s2)"

text \<open>
  Lines 93 to 120. In \<open>self.q[self.q_r] is not None and self.q[self.q_r + 1] is not None\<close>
  the second slot is only read when the first holds a waypoint.
\<close>

definition confirm_anchors ::
  "config \<Rightarrow> pose \<Rightarrow> 'img controller \<Rightarrow> py_error + 'img controller" where
  "confirm_anchors c odom_read s =
     bindE (py_index (q s) (int (q_r c))) (\<lambda>qa.
       case qa of
         None \<Rightarrow> Inr s
       | Some (imgA, recA) \<Rightarrow>
           bindE (py_index (q s) (int (q_r c) + 1)) (\<lambda>qb.
             case qb of
               None \<Rightarrow> Inr s
             | Some (imgB, recB) \<Rightarrow>
                 bindE (update_factors c s) (\<lambda>s'.
                   Inr (update_anchors c odom_read recA recB s'))))"

text \<open>
  \<open>pass_to_next_goal\<close>: \<open>rec\<close> is the value read from the record port, \<open>odom_read\<close> the
  value a blocking read of the odom port returns.
\<close>

definition pass_to_next_goal ::
  "config \<Rightarrow> ('img \<times> pose) option \<Rightarrow> pose \<Rightarrow> 'img controller
     \<Rightarrow> py_error + 'img controller" where
  "pass_to_next_goal c rec odom_read s =
     bindE (confirm_anchors c odom_read (advance_cursor rec s)) update_goal_distances"

text \<open>
  A sequence of advances, one per pair of values delivered by the record port and the
  odom port; it stops at the first exception.
\<close>

fun advances ::
  "config \<Rightarrow> (('img \<times> pose) option \<times> pose) list \<Rightarrow> 'img controller
     \<Rightarrow> py_error + 'img controller" where
  "advances c [] s = Inr s"
| "advances c ((rec, odom_read) # rest) s =
     bindE (pass_to_next_goal c rec odom_read s) (advances c rest)"

section \<open>The drift corrector\<close>

text \<open>
  \<open>a.max()\<close> for an array of numbers: ValueError on an array of size zero.
\<close>

fun list_max :: "real \<Rightarrow> real list \<Rightarrow> real" where
  "list_max m [] = m"
| "list_max m (x # xs) = list_max (max m x) xs"

definition np_max :: "real list \<Rightarrow> py_error + real" where
  "np_max xs = (case xs of [] \<Rightarrow> Inl ValueError | x # rest \<Rightarrow> Inr (list_max x rest))"

text \<open>
  Line 228, \<open>scan_values[scan_values < scan_values[scan_values != scan_values.max()].max()] = 0\<close>:
  the scores other than the maximum are selected, their maximum is taken (ValueError
  when none is left), and every score below it becomes 0.
\<close>

definition suppress_below_second :: "real list \<Rightarrow> py_error + real list" where
  "suppress_below_second scan_values =
     bindE (np_max scan_values) (\<lambda>top.
     bindE (np_max (filter (\<lambda>v. v \<noteq> top) scan_values)) (\<lambda>second.
       Inr (map (\<lambda>v. if v < second then 0 else v) scan_values)))"

text \<open>
  Line 237, \<open>delta_p_distance = scan_values / scan_values.sum() @ scan_distances\<close>: each
  score is divided by the sum of the scores, and the quotients are multiplied into the
  distances. The product of two arrays of different lengths raises ValueError.
\<close>

definition weighted_distance :: "real list \<Rightarrow> fl list \<Rightarrow> py_error + fl" where
  "weighted_distance scan_values scan_distances =
     (if length scan_values \<noteq> length scan_distances then Inl ValueError
      else Inr (fl_dot (map (\<lambda>v. fl_div (Fin v) (Fin (sum_list scan_values))) scan_values)
                       scan_distances))"

text \<open>
  Lines 228 to 239: the along-path correction of one cycle, from the scores and distances
  of the scan and the distance \<open>l_odomR_odomB\<close> from the robot to anchor B. The result is
  \<open>(delta_p_distance, along_path_correction)\<close>.
\<close>

definition along_path :: "config \<Rightarrow> real \<Rightarrow> real list \<Rightarrow> fl list \<Rightarrow> py_error + fl \<times> fl" where
  "along_path c l_odomR_odomB scan_values scan_distances =
     bindE (suppress_below_second scan_values) (\<lambda>kept.
     bindE (weighted_distance kept scan_distances) (\<lambda>delta_p_distance.
       Inr (delta_p_distance,
            fl_div (fl_sub (Fin l_odomR_odomB)
                           (fl_mul (Fin (k_along_path c)) delta_p_distance))
                   (Fin l_odomR_odomB))))"

text \<open>A list comprehension whose body can raise: the first exception ends it.\<close>

fun map_err :: "('a \<Rightarrow> 'e + 'b) \<Rightarrow> 'a list \<Rightarrow> 'e + 'b list" where
  "map_err f [] = Inr []"
| "map_err f (x # xs) = bindE (f x) (\<lambda>y. bindE (map_err f xs) (\<lambda>ys. Inr (y # ys)))"

text \<open>\<open>[q_idx for q_idx in idxs if self.q[q_idx] is not None]\<close>.\<close>

definition present_indices :: "'a option list \<Rightarrow> nat list \<Rightarrow> py_error + nat list" where
  "present_indices qs idxs =
     bindE (map_err (\<lambda>q_idx. bindE (py_index qs (int q_idx)) (\<lambda>e. Inr (q_idx, e))) idxs)
       (\<lambda>es. Inr (map fst (filter (\<lambda>(q_idx, e). e \<noteq> None) es)))"

text \<open>
  Lines 201 to 203: the window slots \<open>0 .. 2 r\<close> that hold a waypoint, with the first
  slot repeated in front and the last one repeated behind so that the list stands for
  all \<open>2 r + 1\<close> slots. \<open>[x] * n\<close> is empty for \<open>n \<le> 0\<close>.
\<close>

definition scan_q_indices :: "nat \<Rightarrow> 'a option list \<Rightarrow> py_error + nat list" where
  "scan_q_indices r qs =
     bindE (present_indices qs [0 ..< 2 * r + 1]) (\<lambda>idx.
     bindE (py_index idx 0) (\<lambda>first.
       (let idx1 = replicate first first @ idx
        in bindE (py_index idx1 (- 1)) (\<lambda>final.
             Inr (idx1 @ replicate (2 * r - final) final)))))"

text \<open>
  Line 204: the recorded path distance of every scanned slot, relative to the current
  goal \<open>i\<close> and to the robot's projection \<open>l_proj_odomA_odomR\<close> on the segment.
\<close>

definition scan_distances_of ::
  "nat \<Rightarrow> int \<Rightarrow> real list \<Rightarrow> fl \<Rightarrow> nat list \<Rightarrow> py_error + fl list" where
  "scan_distances_of r i dists l_proj idxs =
     bindE (map_err (\<lambda>q_idx. py_index dists (int q_idx - int r + i)) idxs) (\<lambda>ds.
     bindE (py_index dists i) (\<lambda>di.
       Inr (map (\<lambda>d. fl_sub (Fin (d - di)) l_proj) ds)))"

text \<open>
  Lines 210 to 214: every scanned reference image is matched against the live image.
  \<open>ncc\<close> stands for \<open>NCC_horizontal_match\<close>, which is not among the sources and returns
  the best horizontal offset and its score. \<open>k_r\<close> is the last position of the scan that
  looks at slot \<open>r\<close>; the variable has no value when no position does.
\<close>

definition ncc_scan ::
  "('img \<Rightarrow> 'img \<Rightarrow> real \<times> real) \<Rightarrow> 'img \<Rightarrow> ('img \<times> pose) option list \<Rightarrow> nat list
     \<Rightarrow> py_error + (real \<times> real) list" where
  "ncc_scan ncc live qs idxs =
     map_err (\<lambda>q_idx. bindE (py_index qs (int q_idx)) (\<lambda>e.
                case e of None \<Rightarrow> Inl TypeError
                        | Some (img_ref, odom_ref) \<Rightarrow> Inr (ncc live img_ref))) idxs"

definition k_r_of :: "nat \<Rightarrow> nat list \<Rightarrow> py_error + nat" where
  "k_r_of r idxs =
     (case filter (\<lambda>k. idxs ! k = r) [0 ..< length idxs] of
        [] \<Rightarrow> Inl UnboundLocalError
      | k # ks \<Rightarrow> Inr (last (k # ks)))"

text \<open>
  Lines 194 to 254, the straight-segment phase of one cycle: \<open>now\<close> is \<open>current_time\<close>,
  \<open>live\<close> the camera image, \<open>width live\<close> its \<open>shape[1]\<close>, \<open>T_0_odomR\<close> the odometry
  pose, \<open>A\<close> and \<open>B\<close> the two anchor estimates. The result says whether the cycle asks
  for an advance (line 241), and gives the state with \<open>timer_P\<close> set and, when no advance
  is asked for, with the refined \<open>T_0_odomB\<close>.
\<close>

definition straight_segment ::
  "config \<Rightarrow> ('img \<Rightarrow> 'img \<Rightarrow> real \<times> real) \<Rightarrow> ('img \<Rightarrow> nat) \<Rightarrow> real \<Rightarrow> 'img \<Rightarrow> pose
     \<Rightarrow> pose \<Rightarrow> pose \<Rightarrow> 'img controller \<Rightarrow> py_error + bool \<times> 'img controller" where
  "straight_segment c ncc width now live T_0_odomR A B s =
     (let r = along_path_radius c;
          T_odomR_odomB = compose (einv T_0_odomR) B;
          t_odomA_odomB = vsub (edt B) (edt A);
          t_odomA_odomR = vsub (edt T_0_odomR) (edt A);
          l_odomA_odomB = t3d_norm t_odomA_odomB;
          l_odomR_odomB = t3d_norm (edt T_odomR_odomB);
          l_proj_odomA_odomR = fl_div (Fin (vdot t_odomA_odomR t_odomA_odomB)) (Fin l_odomA_odomB);
          u = fl_div l_proj_odomA_odomR (Fin l_odomA_odomB);
          dt = now - timer_P s;
          s1 = s\<lparr>timer_P := now\<rparr>
      in bindE (scan_q_indices r (q s)) (\<lambda>idxs.
         bindE (scan_distances_of r (goal_idx s) (goal_distances s) l_proj_odomA_odomR idxs)
           (\<lambda>scan_distances.
         bindE (ncc_scan ncc live (q s) idxs) (\<lambda>scans.
         bindE (along_path c l_odomR_odomB (map snd scans) scan_distances)
           (\<lambda>(delta_p_distance, along_path_correction).
         if fl_lt (Fin (1 - 1 / 100)) u \<or> l_odomR_odomB < distance_threshold c
         then Inr (True, s1)
         else
           bindE (k_r_of r idxs) (\<lambda>k_r.
           bindE (py_index (map fst scans) (int k_r)) (\<lambda>offset_A.
           bindE (py_index (map fst scans) (int k_r + 1)) (\<lambda>offset_B.
             (let theta_A = fl_mul (fl_div (Fin offset_A) (Fin (real (width live))))
                                   (Fin (horizontal_fov c));
                  theta_B = fl_mul (fl_div (Fin offset_B) (Fin (real (width live))))
                                   (Fin (horizontal_fov c));
                  theta_R = fl_add (fl_mul (fl_sub (Fin 1) u) theta_A) (fl_mul u theta_B);
                  rotation_correction = fl_mul (Fin (- k_rotation c * dt)) theta_R
              in bindE (to_real rotation_correction) (\<lambda>rc.
                 bindE (to_real along_path_correction) (\<lambda>apc.
                   (let offset0 = compose \<lparr>edR = euler2mat_z rc, edt = (0, 0, 0)\<rparr>
                                          T_odomR_odomB;
                        correction_offset = offset0\<lparr>edt := vscale apc (edt offset0)\<rparr>
                    in Inr (False,
                            s1\<lparr>T_0_odomB := Some (compose T_0_odomR correction_offset)\<rparr>)))))))))))))"

section \<open>The predictive control law\<close>

text \<open>
  Line 145: the steering weights padded with zeros to the length \<open>max_rps\<close>; \<open>np.pad\<close>
  raises ValueError on a negative pad width.
\<close>

definition padded_weights :: "config \<Rightarrow> py_error + real list" where
  "padded_weights c =
     (if max_rps c < length (steering_weights c) then Inl ValueError
      else Inr (steering_weights c
                @ replicate (max_rps c - length (steering_weights c)) 0))"

text \<open>
  Lines 295 to 302 for one lookahead waypoint at \<open>(x, y)\<close> in the robot's frame: the
  radius of the arc through the waypoint, clamped to the minimum radius, and the angular
  velocity that follows it at the reference velocity, with NaN replaced by 0.
\<close>

definition steering_w :: "config \<Rightarrow> real \<times> real \<Rightarrow> fl" where
  "steering_w c xy =
     (case xy of (x, y) \<Rightarrow>
        (let d_square = x * x + y * y;
             R0 = fl_div (Fin (d_square / 2)) (Fin y);
             R = (if fl_lt (fl_abs R0) (R_min_abs c)
                  then fl_mul (fl_sign R0) (R_min_abs c) else R0);
             w = fl_div (Fin (reference_velocity c)) R
         in if is_nan w then Fin 0 else w))"

text \<open>Lines 304 to 308: the weighted average of the angular velocities.\<close>

definition weighted_w :: "real list \<Rightarrow> fl list \<Rightarrow> fl" where
  "weighted_w weights_q w =
     (let w_target = fl_div (fl_dot (map Fin weights_q) w) (Fin (sum_list weights_q))
      in if is_nan w_target then Fin 0 else w_target)"

definition pose_of :: "('img \<times> pose) option \<Rightarrow> py_error + pose" where
  "pose_of e = (case e of None \<Rightarrow> Inl TypeError | Some (img, T) \<Rightarrow> Inr T)"

text \<open>
  Lines 289 to 308: the lookahead waypoints of the window slots \<open>r + 1 .. r + rp\<close> are
  carried into the robot's frame through the estimate \<open>B\<close> of the next anchor;
  \<open>T_0_Qi[0]\<close> raises IndexError when no such slot holds a waypoint.
\<close>

definition steering_target ::
  "config \<Rightarrow> real list \<Rightarrow> pose \<Rightarrow> pose \<Rightarrow> ('img \<times> pose) option list \<Rightarrow> py_error + fl" where
  "steering_target c weights T_0_odomR B qs =
     (let r = along_path_radius c in
      bindE (present_indices qs [r + 1 ..< r + max_rp c + 1]) (\<lambda>p_indices.
      bindE (map_err (\<lambda>q_idx. bindE (py_index qs (int q_idx)) pose_of) p_indices) (\<lambda>T_0_Qi.
      bindE (py_index T_0_Qi 0) (\<lambda>T_0_Q0.
        (let M = compose (compose (einv T_0_odomR) B) (einv T_0_Q0);
             xy = map (\<lambda>T. case edt (compose M T) of (x, y, z) \<Rightarrow> (x, y)) T_0_Qi;
             w = map (steering_w c) xy
         in bindE (map_err (\<lambda>q_idx. py_index weights (int q_idx - (int r + 1))) p_indices)
              (\<lambda>weights_q. Inr (weighted_w weights_q w)))))))"

text \<open>
  Lines 311 to 329: the turn angles between consecutive displacements of the recorded
  positions in the window slots \<open>0 .. r + rps\<close>, each turned into a radius, and the
  smallest of them; \<open>min\<close> raises ValueError when fewer than three slots hold a waypoint.
\<close>

definition slowing_radius :: "config \<Rightarrow> ('img \<times> pose) option list \<Rightarrow> py_error + fl" where
  "slowing_radius c qs =
     bindE (present_indices qs [0 ..< along_path_radius c + max_rps c + 1]) (\<lambda>s_indices.
     bindE (map_err (\<lambda>q_idx. bindE (py_index qs (int q_idx)) pose_of) s_indices) (\<lambda>T_0_Qi.
       (let xy_0_Qi = map (\<lambda>T. case edt T of (x, y, z) \<Rightarrow> (x, y)) T_0_Qi;
            vs = map2 (\<lambda>(x1, y1) (x0, y0). (x1 - x0, y1 - y0)) (tl xy_0_Qi) (butlast xy_0_Qi);
            ls = map (\<lambda>(x, y). sqrt (x * x + y * y)) vs;
            phis_abs = map2 (\<lambda>((ax, ay), la) ((bx, by), lb).
                               fl_abs (fl_arccos (fl_clip
                                 (fl_div (Fin (ax * bx + ay * by)) (Fin (la * lb))))))
                            (butlast (zip vs ls)) (tl (zip vs ls));
            Rs_abs = map (\<lambda>phi. fl_div (Fin (wheelbase c)) (fl_tan phi)) phis_abs
        in np_min Rs_abs)))"

text \<open>
  Lines 331 to 340: the target speed from the smallest radius ahead, the angular velocity
  rescaled with it, and the last replacement of NaN by 0. Python's \<open>max(0, x)\<close> is \<open>x\<close>
  when \<open>x > 0\<close> and 0 otherwise; \<open>v_low\<close> is 2.0 and \<open>k\<close> is 0.75.
\<close>

definition speed_control :: "config \<Rightarrow> fl \<Rightarrow> fl \<Rightarrow> fl \<times> fl" where
  "speed_control c R_min w_target0 =
     (let v_full = reference_velocity c;
          v_low = 2;
          (v_target, w_target) =
            (if is_nan R_min then (Fin v_full, w_target0)
             else
               (let diff = fl_sub R_min (R_min_abs c);
                    offset = (if fl_lt (Fin 0) diff then diff else Fin 0);
                    k = 3 / 4;
                    v = fl_add (fl_mul (fl_mul (fl_sub (Fin 1) (fl_exp (fl_neg offset))) (Fin k))
                                       (Fin (v_full - v_low)))
                               (Fin v_low)
                in (v, fl_div (fl_mul v w_target0) (Fin v_full))))
      in (v_target, if is_nan w_target then Fin 0 else w_target))"

text \<open>
  Lines 289 to 346: the control law of one cycle writes one command
  \<open>('vw', v_target, w_target)\<close> to the \<open>actuator_command\<close> port.
\<close>

definition control_law ::
  "config \<Rightarrow> real list \<Rightarrow> pose \<Rightarrow> 'img controller \<Rightarrow> py_error + 'img controller" where
  "control_law c weights T_0_odomR s =
     (case T_0_odomB s of
        None \<Rightarrow> Inl TypeError
      | Some B \<Rightarrow>
          bindE (steering_target c weights T_0_odomR B (q s)) (\<lambda>w_target0.
          bindE (slowing_radius c (q s)) (\<lambda>R_min.
            (case speed_control c R_min w_target0 of
               (v_target, w_target) \<Rightarrow>
                 Inr (s\<lparr>actuator_command :=
                          actuator_command s @ [VW v_target w_target]\<rparr>)))))"

section \<open>The control loop of \<open>run\<close>\<close>

text \<open>
  What one iteration of the main loop finds on its ports: the time, the pending image
  and odometry pose (\<open>None\<close> when \<open>poll()\<close> is false), and the values that blocking reads
  of the record port and of the odom port would return.
\<close>

record 'img tick =
  tick_time :: real
  tick_image :: "'img option"
  tick_odom :: "pose option"
  tick_record :: "('img \<times> pose) option"
  tick_odom_read :: pose

datatype outcome = Continue | Finished

text \<open>
  Lines 164 to 169: the path is exhausted when slot \<open>r\<close> holds a waypoint and slot
  \<open>r + 1\<close> does not; the second slot is only read when the first holds a waypoint.
\<close>

definition path_exhausted :: "config \<Rightarrow> 'img controller \<Rightarrow> py_error + bool" where
  "path_exhausted c s =
     bindE (py_index (q s) (int (along_path_radius c))) (\<lambda>qa.
       case qa of
         None \<Rightarrow> Inr False
       | Some wa \<Rightarrow>
           bindE (py_index (q s) (int (along_path_radius c) + 1)) (\<lambda>qb. Inr (qb = None)))"

text \<open>
  Lines 172 to 346, the work of an iteration that found an image and an odometry pose:
  the drift correction unless the segment is a turn, then either the advance to the next
  goal, which ends the iteration (\<open>continue\<close>), or the control law.
\<close>

definition cycle ::
  "config \<Rightarrow> ('img \<Rightarrow> 'img \<Rightarrow> real \<times> real) \<Rightarrow> ('img \<Rightarrow> nat) \<Rightarrow> real list \<Rightarrow> 'img tick
     \<Rightarrow> 'img \<Rightarrow> pose \<Rightarrow> 'img controller \<Rightarrow> py_error + 'img controller" where
  "cycle c ncc width weights t live T_0_odomR s =
     (case T_0_odomB s of
        None \<Rightarrow> Inl TypeError
      | Some B \<Rightarrow>
          (case T_0_odomA s of
             None \<Rightarrow> Inl TypeError
           | Some A \<Rightarrow>
               (let l_odomA_odomB = t3d_norm (vsub (edt B) (edt A));
                    turning_goal = l_odomA_odomB < distance_threshold c
                in bindE (if \<not> turning_goal
                          then straight_segment c ncc width (tick_time t) live T_0_odomR A B s
                          else Inr (False, s))
                     (\<lambda>(advance, s1).
                        if advance
                        then pass_to_next_goal c (tick_record t) (tick_odom_read t) s1
                        else control_law c weights T_0_odomR s1))))"

text \<open>One iteration of the main loop (lines 157 to 352).\<close>

definition run_iteration ::
  "config \<Rightarrow> ('img \<Rightarrow> 'img \<Rightarrow> real \<times> real) \<Rightarrow> ('img \<Rightarrow> nat) \<Rightarrow> real list \<Rightarrow> 'img tick
     \<Rightarrow> 'img controller \<Rightarrow> py_error + outcome \<times> 'img controller" where
  "run_iteration c ncc width weights t s =
     bindE (path_exhausted c s) (\<lambda>exhausted.
       if exhausted
       then Inr (Finished, s\<lparr>passed_goal := passed_goal s @ [None]\<rparr>)
       else (case (tick_image t, tick_odom t) of
               (Some live, Some T_0_odomR) \<Rightarrow>
                 bindE (cycle c ncc width weights t live T_0_odomR s) (\<lambda>s'.
                   Inr (Continue, s'))
             | _ \<Rightarrow> Inr (Continue, s)))"

text \<open>
  The main loop over the iterations that take place before shutdown; \<open>break\<close> leaves
  it, and the remaining iterations do not happen.
\<close>

fun main_loop ::
  "config \<Rightarrow> ('img \<Rightarrow> 'img \<Rightarrow> real \<times> real) \<Rightarrow> ('img \<Rightarrow> nat) \<Rightarrow> real list \<Rightarrow> 'img tick list
     \<Rightarrow> 'img controller \<Rightarrow> py_error + outcome \<times> 'img controller" where
  "main_loop c ncc width weights [] s = Inr (Continue, s)"
| "main_loop c ncc width weights (t # ts) s =
     bindE (run_iteration c ncc width weights t s) (\<lambda>(out, s').
       case out of
         Finished \<Rightarrow> Inr (Finished, s')
       | Continue \<Rightarrow> main_loop c ncc width weights ts s')"

text \<open>
  Lines 149 to 152, \<open>while not self.goal_idx == 0: self.pass_to_next_goal()\<close>, over the
  values that the record port and the odom port deliver to the blocking reads.
\<close>

fun warm_up ::
  "config \<Rightarrow> (('img \<times> pose) option \<times> pose) list \<Rightarrow> 'img controller
     \<Rightarrow> py_error + 'img controller" where
  "warm_up c [] s = (if goal_idx s = 0 then Inr s else Inl Blocked)"
| "warm_up c ((rec, odom_read) # rest) s =
     (if goal_idx s = 0 then Inr s
      else bindE (pass_to_next_goal c rec odom_read s) (warm_up c rest))"

text \<open>
  \<open>run\<close> on a controller fresh from \<open>__init__\<close>: the weights, the warm-up, the timers
  (\<open>t0\<close> is the time read at line 155) and the main loop.
\<close>

definition run ::
  "config \<Rightarrow> ('img \<Rightarrow> 'img \<Rightarrow> real \<times> real) \<Rightarrow> ('img \<Rightarrow> nat)
     \<Rightarrow> (('img \<times> pose) option \<times> pose) list \<Rightarrow> real \<Rightarrow> 'img tick list
     \<Rightarrow> py_error + outcome \<times> 'img controller" where
  "run c ncc width reads t0 ticks =
     bindE (padded_weights c) (\<lambda>weights.
     bindE (warm_up c reads (init_controller c)) (\<lambda>s.
       main_loop c ncc width weights ticks (s\<lparr>timer_P := t0\<rparr>)))"

section \<open>Example inputs\<close>

text \<open>A pose without rotation at the point \<open>(x, 0, 0)\<close>.\<close>

definition pose_at :: "real \<Rightarrow> pose" where
  "pose_at x = \<lparr>edR = mat_id, edt = (x, 0, 0)\<rparr>"

text \<open>
  A configuration with the Ackermann geometry of the spec's end-to-end scenario, a window
  radius of 1 and lookahead counts of 2, hence a window of four slots.
\<close>

definition cfg0 :: config where
  "cfg0 = \<lparr>track = 1 / 2, wheelbase = 4 / 5, wheel_radius = 3 / 20,
            max_steering_angle = 3 / 5,
            horizontal_fov = 1, along_path_radius = 1, steering_predict_goals = 2,
            steering_weights = [1, 1 / 2], slowing_predict_goals = 2,
            k_rotation = 1 / 100, k_along_path = 1 / 100,
            initial_compensation_rotation_update_rate = 1 / 4,
            initial_compensation_translation_update_rate = 1 / 4,
            initial_compensation_rotation_threshold = 1 / 10,
            initial_compensation_translation_threshold = 2,
            distance_threshold = 1 / 10, reference_velocity = 5\<rparr>"

text \<open>
  The controller after the warm-up on a straight path with waypoints one metre apart:
  goal 0 is confirmed, the anchors are the waypoints 0 and 1. In the examples an image
  is a number, the place along the path where it was taken.
\<close>

definition s_mid :: "real controller" where
  "s_mid = \<lparr>q = [None, Some (0, pose_at 0), Some (1, pose_at 1), Some (2, pose_at 2)],
      goal_distances = [0, 1, 2],
      goal_idx = 0,
      T_0_odomA = Some (pose_at 0),
      T_0_odomB = Some (pose_at 1),
      record_T_odomA_odomB = Some (pose_at 1),
      record_T_odomA_odomB_rotation = Some 0,
      record_T_odomA_odomB_translation = Some 1,
      initial_compensation_rotation_factor = 1,
      initial_compensation_translation_factor = 1,
      passed_goal = [Some 0],
      actuator_command = [],
      timer_P = 0\<rparr>"

text \<open>The three reads of the warm-up that lead to \<open>s_mid\<close>.\<close>

definition reads3 :: "((real \<times> pose) option \<times> pose) list" where
  "reads3 = [(Some (0, pose_at 0), pose_at 0), (Some (1, pose_at 1), pose_at 0),
             (Some (2, pose_at 2), pose_at 0)]"

text \<open>Scores and path distances of a scan over three window slots.\<close>

definition scores0 :: "real list" where
  "scores0 = [1 / 5, 9 / 10, 1 / 2, 9 / 10, 1 / 10]"

definition dists0 :: "fl list" where
  "dists0 = [Fin (- 1), Fin 0, Fin 1]"

text \<open>
  The Ackermann geometry of the spec's end-to-end scenario, and the minimum turning
  radius it gives.
\<close>

definition ack0 :: ackermann_cfg where
  "ack0 = \<lparr>track = 1 / 2, wheelbase = 4 / 5, wheel_radius = 3 / 20,
            max_steering_angle = 3 / 5\<rparr>"

definition Rm0 :: real where
  "Rm0 = 4 / 5 / tan (3 / 5) + 1 / 4"

text \<open>
  A stand-in for the image matcher, which prefers the reference taken nearest to the live
  image and never sees a horizontal offset, and for the image width.
\<close>

definition ncc0 :: "real \<Rightarrow> real \<Rightarrow> real \<times> real" where
  "ncc0 live ref = (0, 1 / (1 + \<bar>live - ref\<bar>))"

definition width0 :: "real \<Rightarrow> nat" where
  "width0 img = 100"

text \<open>
  An iteration at time \<open>now\<close> that finds the image \<open>img\<close> and the odometry pose at
  \<open>(x, 0, 0)\<close>, with \<open>rec\<close> waiting on the record port.
\<close>

definition tick_at :: "real \<Rightarrow> real \<Rightarrow> real \<Rightarrow> (real \<times> pose) option \<Rightarrow> real tick" where
  "tick_at now img x rec =
     \<lparr>tick_time = now, tick_image = Some img, tick_odom = Some (pose_at x),
      tick_record = rec, tick_odom_read = pose_at x\<rparr>"

text \<open>
  The states that a repeat of the three-waypoint path passes through: \<open>s_1\<close> after the
  advance to goal 1 (the recording has run out, \<open>None\<close> enters the window), \<open>s_2\<close> after
  the advance to goal 2, and \<open>s_E\<close> after a drift correction half way to goal 1.
\<close>

definition s_1 :: "real controller" where
  "s_1 = \<lparr>q = [Some (0, pose_at 0), Some (1, pose_at 1), Some (2, pose_at 2), None],
      goal_distances = [0, 1, 2],
      goal_idx = 1,
      T_0_odomA = Some (pose_at 1),
      T_0_odomB = Some (pose_at 2),
      record_T_odomA_odomB = Some (pose_at 1),
      record_T_odomA_odomB_rotation = Some 0,
      record_T_odomA_odomB_translation = Some 1,
      initial_compensation_rotation_factor = 1,
      initial_compensation_translation_factor = 1,
      passed_goal = [Some 0, Some 1],
      actuator_command = [],
      timer_P = 1\<rparr>"

definition s_2 :: "real controller" where
  "s_2 = s_1\<lparr>q := [Some (1, pose_at 1), Some (2, pose_at 2), None, None],
             goal_idx := 2,
             passed_goal := [Some 0, Some 1, Some 2],
             timer_P := 2\<rparr>"





text \<open>
  The doubles nearest to 0.2 and to 0.9, and the double after the latter
  (0.9000000000000001).
\<close>

definition double_0_2 :: real where
  "double_0_2 = 3602879701896397 / 2 ^ 54"

definition double_0_9 :: real where
  "double_0_9 = 8106479329266893 / 2 ^ 53"

definition double_0_9_next :: real where
  "double_0_9_next = 8106479329266894 / 2 ^ 53"

text \<open>
  The configuration with both update rates at 0.2, the state \<open>s_mid\<close> with both correction
  factors at 0.9, as an update with the ratio 0.5 leaves them when they were 1, and the
  state after the advance to goal 1 from there, when the waypoint 3 is read.
\<close>

definition cfg_drift :: config where
  "cfg_drift = cfg0\<lparr>initial_compensation_rotation_update_rate := double_0_2,
                    initial_compensation_translation_update_rate := double_0_2\<rparr>"

definition s_drift :: "real controller" where
  "s_drift = s_mid\<lparr>initial_compensation_rotation_factor := double_0_9,
                    initial_compensation_translation_factor := double_0_9\<rparr>"

definition s_drift_next :: "real controller" where
  "s_drift_next =
     s_1\<lparr>q := [Some (0, pose_at 0), Some (1, pose_at 1), Some (2, pose_at 2),
               Some (3, pose_at 3)],
          goal_distances := [0, 1, 2, 3],
          initial_compensation_rotation_factor := double_0_9_next,
          initial_compensation_translation_factor := double_0_9_next,
          timer_P := 0\<rparr>"

section \<open>Invariants\<close>

text \<open>The cumulative distances are never empty, start at 0 and do not decrease.\<close>

definition gd_inv :: "'img controller \<Rightarrow> bool" where
  "gd_inv s \<longleftrightarrow> goal_distances s \<noteq> [] \<and> sorted (goal_distances s) \<and> hd (goal_distances s) = 0"

text \<open>
  The values written to the \<open>passed_goal\<close> port so far are the goal indices from 0 to
  the current one, in order.
\<close>

definition pg_inv :: "'img controller \<Rightarrow> bool" where
  "pg_inv s \<longleftrightarrow> passed_goal s = map Some [0 .. goal_idx s]"

section \<open>Basic facts\<close>

lemma bindE_Inr: "bindE m f = Inr y \<longleftrightarrow> (\<exists>x. m = Inr x \<and> f x = Inr y)"
  by (cases m) (simp_all add: bindE_def)

lemma bindE_simps [simp]: "bindE (Inr x) f = f x" "bindE (Inl e) f = Inl e"
  by (simp_all add: bindE_def)

section \<open>Rounding to doubles: error bound and exact cases\<close>

lemma round_half_even_error: "\<bar>of_int (round_half_even x) - x\<bar> \<le> 1 / 2"
proof -
  have "of_int \<lfloor>x\<rfloor> \<le> x" "x < of_int \<lfloor>x\<rfloor> + 1" by linarith+
  then show ?thesis
    by (auto simp: round_half_even_def Let_def)
qed

lemma round_half_even_of_int [simp]: "round_half_even (of_int n) = n"
  by (simp add: round_half_even_def)

lemma floor_log2_eq:
  assumes "2 powi p \<le> x" and "x < 2 powi (p + 1)"
  shows "\<lfloor>log 2 x\<rfloor> = p"
proof -
  have "0 < (2::real) powi p" by simp
  then have pos: "0 < x" using assms(1) by linarith
  have "(2::real) powr real_of_int p = 2 powi p"
    by (simp add: powr_real_of_int')
  moreover have "(2::real) powr (real_of_int p + 1) = 2 powi (p + 1)"
    using powr_real_of_int'[of "2::real" "p + 1"] by simp
  ultimately show ?thesis
    using floor_log_eq_powr_iff[of x 2 p] pos assms by simp
qed

lemma powi_floor_log2_le:
  assumes "0 < x"
  shows "2 powi \<lfloor>log 2 x\<rfloor> \<le> x"
proof -
  have "(2::real) powr real_of_int \<lfloor>log 2 x\<rfloor> \<le> 2 powr (log 2 x)"
    by (intro powr_mono) simp_all
  also have "\<dots> = x" using assms by simp
  finally show ?thesis by (simp add: powr_real_of_int')
qed

lemma powi_floor_log2_gt:
  assumes "0 < x"
  shows "x < 2 powi (\<lfloor>log 2 x\<rfloor> + 1)"
proof -
  have "x = 2 powr (log 2 x)" using assms by simp
  also have "\<dots> < 2 powr real_of_int (\<lfloor>log 2 x\<rfloor> + 1)"
  proof (rule powr_less_mono)
    show "log 2 x < real_of_int (\<lfloor>log 2 x\<rfloor> + 1)" by simp
  qed simp
  also have "\<dots> = 2 powi (\<lfloor>log 2 x\<rfloor> + 1)"
    using powr_real_of_int'[of "2::real" "\<lfloor>log 2 x\<rfloor> + 1"] by simp
  finally show ?thesis .
qed

lemma round_double_eval:
  assumes "2 powi p \<le> \<bar>x\<bar>" and "\<bar>x\<bar> < 2 powi (p + 1)" and "- 1022 \<le> p"
  shows "round_double x = of_int (round_half_even (x / 2 powi (p - 52))) * 2 powi (p - 52)"
proof -
  have p0: "0 < (2::real) powi p" by simp
  have "x \<noteq> 0"
  proof
    assume "x = 0"
    with assms(1) have "2 powi p \<le> (0::real)" by simp
    with p0 show False by linarith
  qed
  moreover have "double_exponent x = p - 52"
    using floor_log2_eq[OF assms(1,2)] assms(3) by (simp add: double_exponent_def)
  ultimately show ?thesis by (simp add: round_double_def)
qed

lemma round_double_error:
  "\<bar>round_double x - x\<bar> \<le> max (\<bar>x\<bar> / 2 ^ 53) (1 / 2 ^ 1075)"
proof (cases "x = 0")
  case True
  then show ?thesis by (simp add: round_double_def)
next
  case False
  define e where "e = double_exponent x"
  define y where "y = x / 2 powi e"
  have pe: "0 < (2::real) powi e" by simp
  have x: "y * 2 powi e = x" by (simp add: y_def)
  have "round_double x = of_int (round_half_even y) * 2 powi e"
    using False by (simp add: round_double_def e_def y_def)
  then have "round_double x - x = (of_int (round_half_even y) - y) * 2 powi e"
    using x by (simp add: algebra_simps)
  then have "\<bar>round_double x - x\<bar> = \<bar>of_int (round_half_even y) - y\<bar> * 2 powi e"
    by (simp add: abs_mult)
  also have "\<dots> \<le> 1 / 2 * 2 powi e"
    by (intro mult_right_mono round_half_even_error) simp
  finally have b: "\<bar>round_double x - x\<bar> \<le> 2 powi e / 2" by simp
  have ax: "0 < \<bar>x\<bar>" using False by simp
  show ?thesis
  proof (cases "- 1022 \<le> \<lfloor>log 2 \<bar>x\<bar>\<rfloor>")
    case True
    then have "e = \<lfloor>log 2 \<bar>x\<bar>\<rfloor> - 52" by (simp add: e_def double_exponent_def)
    then have "(2::real) powi e = 2 powi \<lfloor>log 2 \<bar>x\<bar>\<rfloor> / 2 ^ 52"
      by (simp add: power_int_diff)
    also have "\<dots> \<le> \<bar>x\<bar> / 2 ^ 52"
      using powi_floor_log2_le[OF ax] by (simp add: divide_right_mono)
    finally have "2 powi e / 2 \<le> \<bar>x\<bar> / 2 ^ 53" by simp
    with b have "\<bar>round_double x - x\<bar> \<le> \<bar>x\<bar> / 2 ^ 53" by (rule order_trans)
    then show ?thesis by (rule max.coboundedI1)
  next
    case False
    then have "e = - 1074" by (simp add: e_def double_exponent_def)
    then have "(2::real) powi e / 2 = 1 / 2 ^ 1075"
      by (simp add: power_int_minus_divide)
    with b have "\<bar>round_double x - x\<bar> \<le> 1 / 2 ^ 1075" by simp
    then show ?thesis by (rule max.coboundedI2)
  qed
qed

lemma round_double_repr:
  assumes "\<bar>m\<bar> < 2 ^ 53" and "- 1074 \<le> k"
  shows "round_double (of_int m * 2 powi k) = of_int m * 2 powi k"
proof (cases "m = 0")
  case True
  then show ?thesis by (simp add: round_double_def)
next
  case False
  define x :: real where "x = of_int m * 2 powi k"
  define e where "e = double_exponent x"
  have x0: "x \<noteq> 0" using False by (simp add: x_def)
  have ax: "0 < \<bar>x\<bar>" using x0 by simp
  have "\<bar>x\<bar> = of_int \<bar>m\<bar> * 2 powi k" by (simp add: x_def abs_mult)
  also have "\<dots> < 2 ^ 53 * 2 powi k"
    using assms(1) by (intro mult_strict_right_mono) (simp_all add: of_int_less_numeral_power_cancel_iff)
  also have "\<dots> = 2 powi (k + 53)" by (simp add: power_int_add)
  finally have "2 powi \<lfloor>log 2 \<bar>x\<bar>\<rfloor> < (2::real) powi (k + 53)"
    using powi_floor_log2_le[OF ax] by linarith
  then have "\<lfloor>log 2 \<bar>x\<bar>\<rfloor> < k + 53"
    using power_int_increasing[of "k + 53" "\<lfloor>log 2 \<bar>x\<bar>\<rfloor>" "2::real"] by (cases "\<lfloor>log 2 \<bar>x\<bar>\<rfloor> < k + 53") simp_all
  with assms(2) have ek: "e \<le> k" by (simp add: e_def double_exponent_def)
  then obtain j where j: "k = e + int j" by (metis zle_iff_zadd)
  have "x / 2 powi e = of_int m * 2 ^ j"
    by (simp add: x_def j power_int_add)
  also have "\<dots> = of_int (m * 2 ^ j)" by simp
  finally have "round_half_even (x / 2 powi e) = m * 2 ^ j"
    by (simp only: round_half_even_of_int)
  then have "round_double x = of_int (m * 2 ^ j) * 2 powi e"
    using x0 by (simp add: round_double_def e_def[symmetric])
  also have "\<dots> = x" by (simp add: x_def j power_int_add)
  finally show ?thesis by (simp add: x_def)
qed

lemma round_double_below_two:
  assumes "1 / 2 ^ j \<le> \<bar>x\<bar>" and "\<bar>x\<bar> < 2 / 2 ^ j" and "j \<le> 1022"
  shows "round_double x = of_int (round_half_even (x * 2 ^ (j + 52))) / 2 ^ (j + 52)"
proof -
  have a: "(2::real) powi (- int j) = 1 / 2 ^ j"
    by (simp add: power_int_minus divide_inverse)
  have "(2::real) powi (- int j + 1) = 2 powi (- int j) * 2"
    using power_int_add[of "2::real" "- int j" 1] by simp
  with a have b: "(2::real) powi (- int j + 1) = 2 / 2 ^ j" by simp
  have "- int j - 52 = - int (j + 52)" by simp
  then have c: "(2::real) powi (- int j - 52) = 1 / 2 ^ (j + 52)"
    by (simp only: power_int_minus power_int_of_nat divide_inverse mult_1)
  have h1: "2 powi (- int j) \<le> \<bar>x\<bar>" using assms(1) a by simp
  have h2: "\<bar>x\<bar> < 2 powi (- int j + 1)" using assms(2) b by simp
  have h3: "- 1022 \<le> - int j" using assms(3) by simp
  have "round_double x
      = of_int (round_half_even (x / 2 powi (- int j - 52))) * 2 powi (- int j - 52)"
    by (rule round_double_eval[OF h1 h2 h3])
  then show ?thesis by (simp add: c)
qed

lemma round_double_frac:
  assumes "\<bar>m\<bar> < 2 ^ 53" and "j \<le> 1074"
  shows "round_double (of_int m / 2 ^ j) = of_int m / 2 ^ j"
proof -
  have "(2::real) powi (- int j) = 1 / 2 ^ j"
    by (simp add: power_int_minus divide_inverse)
  with round_double_repr[of m "- int j"] assms show ?thesis by simp
qed


lemma to_double_Inr: "to_double x = Inr y \<Longrightarrow> y = round_double x"
  by (simp add: to_double_def split: if_splits)

lemma round_double_error_sum:
  "\<bar>round_double x - x\<bar> \<le> \<bar>x\<bar> / 2 ^ 53 + 1 / 2 ^ 1075"
proof -
  have "max (\<bar>x\<bar> / 2 ^ 53) (1 / 2 ^ 1075) \<le> \<bar>x\<bar> / 2 ^ 53 + 1 / 2 ^ 1075"
    by (rule max.boundedI) simp_all
  with round_double_error[of x] show ?thesis by (rule order_trans)
qed





text \<open>
  The moving average with the old value as its sample returns the old value up to the
  rounding of its four operations.
\<close>

lemma moving_average_fixed_bound:
  assumes "moving_average a f f = Inr n"
  shows "\<bar>n - f\<bar> \<le> 4 * (\<bar>a\<bar> + \<bar>1 - a\<bar>) * \<bar>f\<bar> / 2 ^ 53 + 4 * (1 + \<bar>f\<bar>) / 2 ^ 1075"
proof -
  from assms obtain t1 t2 t3 where
    t1: "t1 = round_double (a * f)" and t2: "t2 = round_double (1 - a)"
    and t3: "t3 = round_double (t2 * f)" and n: "n = round_double (t1 + t3)"
    by (auto simp: moving_average_def bindE_Inr dest!: to_double_Inr)
  define u :: real where "u = 1 / 2 ^ 53"
  define h :: real where "h = 1 / 2 ^ 1075"
  define F where "F = \<bar>f\<bar>"
  define p where "p = \<bar>a\<bar> * F"
  define q where "q = \<bar>1 - a\<bar> * F"
  have F0: "0 \<le> F" and p0: "0 \<le> p" and q0: "0 \<le> q" by (simp_all add: F_def p_def q_def)
  have "1 \<le> \<bar>a\<bar> + \<bar>1 - a\<bar>" by linarith
  then have "1 * F \<le> (\<bar>a\<bar> + \<bar>1 - a\<bar>) * F" using F0 by (rule mult_right_mono)
  then have Fpq: "F \<le> p + q" by (simp add: p_def q_def algebra_simps)
  have err: "\<bar>round_double x - x\<bar> \<le> u * \<bar>x\<bar> + h" for x
    using round_double_error_sum[of x] by (simp add: u_def h_def)
  have e1: "\<bar>t1 - a * f\<bar> \<le> u * p + h"
    using err[of "a * f"] by (simp add: t1 p_def F_def abs_mult)
  have "\<bar>t2 - (1 - a)\<bar> * F \<le> (u * \<bar>1 - a\<bar> + h) * F"
    using err[of "1 - a"] F0 unfolding t2 by (rule mult_right_mono)
  moreover have "\<bar>t2 - (1 - a)\<bar> * F = \<bar>t2 * f - (1 - a) * f\<bar>"
    by (simp add: F_def abs_mult[symmetric] algebra_simps)
  ultimately have d2: "\<bar>t2 * f - (1 - a) * f\<bar> \<le> u * q + h * F"
    by (simp add: q_def algebra_simps)
  have "\<bar>(1 - a) * f\<bar> = q" by (simp add: q_def F_def abs_mult)
  with d2 have m: "\<bar>t2 * f\<bar> \<le> q + u * q + h * F" by linarith
  have u0: "0 \<le> u" by (simp add: u_def)
  have "u * \<bar>t2 * f\<bar> \<le> u * (q + u * q + h * F)"
    using m u0 by (rule mult_left_mono)
  with err[of "t2 * f"] have e3: "\<bar>t3 - t2 * f\<bar> \<le> u * (q + u * q + h * F) + h"
    unfolding t3 by linarith
  have u8: "u \<le> 1 / 8" by (simp add: u_def)
  have h0: "0 \<le> h" by (simp add: h_def)
  have sc: "u * x \<le> x / 8" if "0 \<le> x" for x
    using mult_right_mono[OF u8 that] by simp
  define P where "P = u * p"
  define Q where "Q = u * q"
  define G where "G = h * F"
  have P0: "0 \<le> P" and Q0: "0 \<le> Q" and G0: "0 \<le> G"
    by (simp_all add: P_def Q_def G_def u0 h0 p0 q0 F0)
  define S where "S = (P + h) + (Q + u * Q + u * G + h) + (Q + G)"
  have S0: "0 \<le> S" using P0 Q0 G0 h0 u0 by (simp add: S_def)
  have "t1 + t3 - f = (t1 - a * f) + (t3 - t2 * f) + (t2 * f - (1 - a) * f)"
    by (simp add: algebra_simps)
  moreover have "u * (q + u * q + h * F) = Q + u * Q + u * G"
    by (simp add: Q_def G_def algebra_simps)
  ultimately have s: "\<bar>t1 + t3 - f\<bar> \<le> S"
    using e1 e3 d2 unfolding S_def P_def[symmetric] Q_def[symmetric] G_def[symmetric] by linarith
  then have "\<bar>t1 + t3\<bar> \<le> F + S" unfolding F_def by linarith
  then have "u * \<bar>t1 + t3\<bar> \<le> u * (F + S)" using u0 by (rule mult_left_mono)
  with err[of "t1 + t3"] have e4: "\<bar>n - (t1 + t3)\<bar> \<le> u * F + u * S + h"
    unfolding n by (simp add: algebra_simps)
  from e4 s have tot: "\<bar>n - f\<bar> \<le> u * F + u * S + h + S" by linarith
  have "u * F \<le> u * (p + q)" using Fpq u0 by (rule mult_left_mono)
  then have uF: "u * F \<le> P + Q" by (simp add: P_def Q_def algebra_simps)
  have "u * F + u * S + h + S \<le> 4 * P + 4 * Q + 4 * G + 4 * h"
  proof -
    have Sb: "S \<le> P + 17 / 8 * Q + 9 / 8 * G + 2 * h"
      using sc[OF Q0] sc[OF G0] unfolding S_def by linarith
    from uF sc[OF S0] Sb P0 Q0 G0 h0 show ?thesis by linarith
  qed
  also have "\<dots> = 4 * u * (p + q) + 4 * h * (1 + F)"
    by (simp add: P_def Q_def G_def algebra_simps)
  finally have "u * F + u * S + h + S \<le> 4 * u * (p + q) + 4 * h * (1 + F)" .
  with tot have "\<bar>n - f\<bar> \<le> 4 * u * (p + q) + 4 * h * (1 + F)" by linarith
  moreover have "4 * u * (p + q) + 4 * h * (1 + F)
      = 4 * (\<bar>a\<bar> + \<bar>1 - a\<bar>) * \<bar>f\<bar> / 2 ^ 53 + 4 * (1 + \<bar>f\<bar>) / 2 ^ 1075"
    unfolding u_def h_def p_def q_def F_def
    by (simp only: times_divide_eq_right times_divide_eq_left mult_1 mult_1_right distrib_right
        mult.assoc)
  ultimately show ?thesis by simp
qed

lemma round_double_quarters:
  "round_double (1 / 4) = 1 / 4" "round_double (3 / 4) = 3 / 4" "round_double 1 = 1"
  using round_double_frac[of 1 2] round_double_frac[of 3 2] round_double_frac[of 1 0]
  by simp_all

lemma moving_average_quarter: "moving_average (1 / 4) 1 1 = Inr 1"
  by (simp add: moving_average_def to_double_def round_double_quarters)

section \<open>Advancing to the next goal\<close>

lemma advance_cursor_fields:
  "initial_compensation_rotation_factor (advance_cursor rec s) = initial_compensation_rotation_factor s"
  "initial_compensation_translation_factor (advance_cursor rec s) = initial_compensation_translation_factor s"
  "record_T_odomA_odomB_rotation (advance_cursor rec s) = record_T_odomA_odomB_rotation s"
  "record_T_odomA_odomB_translation (advance_cursor rec s) = record_T_odomA_odomB_translation s"
  "goal_distances (advance_cursor rec s) = goal_distances s"
  "q (advance_cursor rec s) = push rec (q s)"
  "goal_idx (advance_cursor rec s) = goal_idx s + 1"
  "T_0_odomA (advance_cursor rec s) = T_0_odomA s"
  "T_0_odomB (advance_cursor rec s) = T_0_odomB s"
  "actuator_command (advance_cursor rec s) = actuator_command s"
  by (simp_all add: advance_cursor_def Let_def)

lemma update_anchors_fields:
  "initial_compensation_rotation_factor (update_anchors c od A B s) = initial_compensation_rotation_factor s"
  "initial_compensation_translation_factor (update_anchors c od A B s) = initial_compensation_translation_factor s"
  "passed_goal (update_anchors c od A B s) = passed_goal s"
  "goal_idx (update_anchors c od A B s) = goal_idx s"
  "q (update_anchors c od A B s) = q s"
  "goal_distances (update_anchors c od A B s) = goal_distances s"
  "actuator_command (update_anchors c od A B s) = actuator_command s"
  by (simp_all add: update_anchors_def Let_def)

lemma update_factors_fields:
  assumes "update_factors c s = Inr s'"
  shows "passed_goal s' = passed_goal s" and "goal_idx s' = goal_idx s" and "q s' = q s"
    and "goal_distances s' = goal_distances s"
    and "actuator_command s' = actuator_command s"
  using assms
  by (auto simp: update_factors_def bindE_Inr Let_def split: option.splits if_splits)

lemma update_goal_distances_fields:
  assumes "update_goal_distances s = Inr s'"
  shows "initial_compensation_rotation_factor s' = initial_compensation_rotation_factor s"
    and "initial_compensation_translation_factor s' = initial_compensation_translation_factor s"
    and "passed_goal s' = passed_goal s"
    and "goal_idx s' = goal_idx s"
    and "q s' = q s"
    and "actuator_command s' = actuator_command s"
  using assms
  by (auto simp: update_goal_distances_def bindE_Inr split: option.splits prod.splits)

lemma confirm_anchors_cases:
  assumes "confirm_anchors c od s = Inr s'"
  shows "s' = s \<or> (\<exists>x A B. update_factors c s = Inr x \<and> s' = update_anchors c od A B x)"
proof -
  have "confirm_anchors c od s = Inr s \<or>
        (\<exists>x A B. update_factors c s = Inr x
                 \<and> confirm_anchors c od s = Inr (update_anchors c od A B x))
        \<or> (\<exists>e. confirm_anchors c od s = Inl e)"
    unfolding confirm_anchors_def bindE_def
    by (simp split: option.split prod.split sum.split) blast
  with assms show ?thesis by auto
qed

lemma pass_to_next_goal_steps:
  assumes "pass_to_next_goal c rec odom_read s = Inr s'"
  obtains s1 where "confirm_anchors c odom_read (advance_cursor rec s) = Inr s1"
    and "update_goal_distances s1 = Inr s'"
  using assms by (auto simp: pass_to_next_goal_def bindE_Inr)

lemma update_factors_rotation:
  assumes "update_factors c s = Inr s'"
    and "record_T_odomA_odomB_rotation s = Some rr"
    and "\<bar>rr\<bar> \<le> initial_compensation_rotation_threshold c"
  shows "s' = s
         \<or> moving_average (initial_compensation_rotation_update_rate c)
              (initial_compensation_rotation_factor s) (initial_compensation_rotation_factor s)
            = Inr (initial_compensation_rotation_factor s')"
  using assms
  by (auto simp: update_factors_def bindE_Inr Let_def split: option.splits if_splits)

lemma update_factors_translation:
  assumes "update_factors c s = Inr s'"
    and "record_T_odomA_odomB_translation s = Some rt"
    and "rt \<le> initial_compensation_translation_threshold c"
  shows "s' = s
         \<or> moving_average (initial_compensation_translation_update_rate c)
              (initial_compensation_translation_factor s)
              (initial_compensation_translation_factor s)
            = Inr (initial_compensation_translation_factor s')"
  using assms
  by (auto simp: update_factors_def bindE_Inr Let_def split: option.splits if_splits)

lemma moving_average_fixed_cases:
  assumes "f' = f \<or> moving_average a f f = Inr f'"
  shows "\<bar>f' - f\<bar> \<le> 4 * (\<bar>a\<bar> + \<bar>1 - a\<bar>) * \<bar>f\<bar> / 2 ^ 53 + 4 * (1 + \<bar>f\<bar>) / 2 ^ 1075"
  using assms
proof
  assume "f' = f"
  then show ?thesis by simp
next
  assume "moving_average a f f = Inr f'"
  then show ?thesis by (rule moving_average_fixed_bound)
qed

lemma confirm_anchors_rotation:
  assumes "confirm_anchors c od s = Inr s'"
    and "record_T_odomA_odomB_rotation s = Some rr"
    and "\<bar>rr\<bar> \<le> initial_compensation_rotation_threshold c"
  shows "initial_compensation_rotation_factor s' = initial_compensation_rotation_factor s
         \<or> moving_average (initial_compensation_rotation_update_rate c)
              (initial_compensation_rotation_factor s) (initial_compensation_rotation_factor s)
            = Inr (initial_compensation_rotation_factor s')"
  using confirm_anchors_cases[OF assms(1)] update_factors_rotation[OF _ assms(2,3)]
  by (auto simp: update_anchors_fields)

lemma confirm_anchors_translation:
  assumes "confirm_anchors c od s = Inr s'"
    and "record_T_odomA_odomB_translation s = Some rt"
    and "rt \<le> initial_compensation_translation_threshold c"
  shows "initial_compensation_translation_factor s' = initial_compensation_translation_factor s
         \<or> moving_average (initial_compensation_translation_update_rate c)
              (initial_compensation_translation_factor s)
              (initial_compensation_translation_factor s)
            = Inr (initial_compensation_translation_factor s')"
  using confirm_anchors_cases[OF assms(1)] update_factors_translation[OF _ assms(2,3)]
  by (auto simp: update_anchors_fields)

lemmas eval_defs =
  pass_to_next_goal_def advance_cursor_def confirm_anchors_def update_factors_def
  update_anchors_def update_goal_distances_def py_index_def push_def cfg0_def s_mid_def
  pose_at_def q_r_def Let_def compose_def einv_def mat_id_def mat_transpose_def
  mat2euler_z_def atan2_def moving_average_quarter

lemma s_mid_advance:
  "\<exists>s'. pass_to_next_goal cfg0 (Some (3, pose_at 3)) (pose_at 0) s_mid = Inr s'"
  by (simp add: eval_defs)

text \<open>
  The moving average of the doubles 0.2 and 0.9: the products round to
  \<open>6485183463413515 / 2 ^ 55\<close> and \<open>6485183463413515 / 2 ^ 53\<close>, and their sum rounds to the
  double above 0.9.
\<close>

lemma round_double_drift:
  "round_double (double_0_2 * double_0_9) = 6485183463413515 / 2 ^ 55"
  "round_double (1 - double_0_2) = 3602879701896397 / 2 ^ 52"
  "round_double (3602879701896397 / 2 ^ 52 * double_0_9) = 6485183463413515 / 2 ^ 53"
  "round_double (6485183463413515 / 2 ^ 55 + 6485183463413515 / 2 ^ 53) = double_0_9_next"
  using round_double_below_two[of 3 "double_0_2 * double_0_9"]
    round_double_below_two[of 1 "1 - double_0_2"]
    round_double_below_two[of 1 "3602879701896397 / 2 ^ 52 * double_0_9"]
    round_double_below_two[of 1 "6485183463413515 / 2 ^ 55 + 6485183463413515 / 2 ^ 53"]
  by (simp_all add: double_0_2_def double_0_9_def double_0_9_next_def round_half_even_def Let_def)

lemma double_0_9_next_small: "\<not> 2 ^ 1024 \<le> \<bar>double_0_9_next\<bar>"
  by (simp add: double_0_9_next_def)

lemma to_double_drift:
  "to_double (double_0_2 * double_0_9) = Inr (6485183463413515 / 2 ^ 55)"
  "to_double (1 - double_0_2) = Inr (3602879701896397 / 2 ^ 52)"
  "to_double (3602879701896397 / 2 ^ 52 * double_0_9) = Inr (6485183463413515 / 2 ^ 53)"
  "to_double (6485183463413515 / 2 ^ 55 + 6485183463413515 / 2 ^ 53) = Inr double_0_9_next"
  unfolding to_double_def round_double_drift using double_0_9_next_small by simp_all

lemma moving_average_drift:
  "moving_average double_0_2 double_0_9 double_0_9 = Inr double_0_9_next"
  unfolding moving_average_def by (simp only: to_double_drift bindE_simps)

text \<open>
  The factor 0.9 arises from the factor 1 by one update with the sample 0.5 at the
  rate 0.2.
\<close>

lemma round_double_to_0_9:
  "round_double (double_0_2 * (1 / 2)) = 3602879701896397 / 2 ^ 55"
  "round_double (3602879701896397 / 2 ^ 52 * 1) = 3602879701896397 / 2 ^ 52"
  "round_double (3602879701896397 / 2 ^ 55 + 3602879701896397 / 2 ^ 52) = double_0_9"
  using round_double_frac[of 3602879701896397 55] round_double_frac[of 3602879701896397 52]
    round_double_below_two[of 1 "3602879701896397 / 2 ^ 55 + 3602879701896397 / 2 ^ 52"]
  by (simp_all add: double_0_2_def double_0_9_def round_half_even_def Let_def)

lemma moving_average_to_0_9: "moving_average double_0_2 (1 / 2) 1 = Inr double_0_9"
proof -
  have "\<not> 2 ^ 1024 \<le> \<bar>double_0_9\<bar>" by (simp add: double_0_9_def)
  then have "to_double (double_0_2 * (1 / 2)) = Inr (3602879701896397 / 2 ^ 55)"
    "to_double (1 - double_0_2) = Inr (3602879701896397 / 2 ^ 52)"
    "to_double (3602879701896397 / 2 ^ 52 * 1) = Inr (3602879701896397 / 2 ^ 52)"
    "to_double (3602879701896397 / 2 ^ 55 + 3602879701896397 / 2 ^ 52) = Inr double_0_9"
    unfolding to_double_def round_double_to_0_9 round_double_drift by simp_all
  then show ?thesis
    unfolding moving_average_def by (simp only: bindE_simps)
qed

lemma pass_drift:
  "pass_to_next_goal cfg_drift (Some (3, pose_at 3)) (pose_at 0) s_drift = Inr s_drift_next"
  by (simp add: eval_defs cfg_drift_def s_drift_def s_drift_next_def s_1_def
      moving_average_drift)

lemma double_0_9_next_differs: "double_0_9_next - double_0_9 = 1 / 2 ^ 53"
  by (simp add: double_0_9_next_def double_0_9_def)

text \<open>
  C4, as amended: when an advance succeeds and the recorded rotation between the anchors
  does not exceed the rotation threshold in magnitude, the rotation correction factor
  after the advance equals the one before up to the rounding of the moving average,
  which is computed with the old factor as its sample: for an update rate between 0 and
  1 the factor changes by at most \<open>4 / 2 ^ 53\<close> of its magnitude, plus an allowance of
  \<open>4 (1 + |factor|) / 2 ^ 1075\<close> for underflow. The same holds for the translation
  correction factor when the recorded translation does not exceed its threshold. An
  advance that does not run the factor update leaves both factors as they are. An
  overflow of the moving average, after which the code goes on with an infinite factor,
  ends the advance in the model and is not covered.
\<close>

theorem correction_factors_carried_over:
  assumes "pass_to_next_goal c rec odom_read s = Inr s'"
  shows "(\<forall>rr. record_T_odomA_odomB_rotation s = Some rr
              \<longrightarrow> \<bar>rr\<bar> \<le> initial_compensation_rotation_threshold c
              \<longrightarrow> \<bar>initial_compensation_rotation_factor s'
                    - initial_compensation_rotation_factor s\<bar>
                  \<le> 4 * (\<bar>initial_compensation_rotation_update_rate c\<bar>
                          + \<bar>1 - initial_compensation_rotation_update_rate c\<bar>)
                        * \<bar>initial_compensation_rotation_factor s\<bar> / 2 ^ 53
                    + 4 * (1 + \<bar>initial_compensation_rotation_factor s\<bar>) / 2 ^ 1075)
       \<and> (\<forall>rt. record_T_odomA_odomB_translation s = Some rt
              \<longrightarrow> rt \<le> initial_compensation_translation_threshold c
              \<longrightarrow> \<bar>initial_compensation_translation_factor s'
                    - initial_compensation_translation_factor s\<bar>
                  \<le> 4 * (\<bar>initial_compensation_translation_update_rate c\<bar>
                          + \<bar>1 - initial_compensation_translation_update_rate c\<bar>)
                        * \<bar>initial_compensation_translation_factor s\<bar> / 2 ^ 53
                    + 4 * (1 + \<bar>initial_compensation_translation_factor s\<bar>) / 2 ^ 1075)"
proof -
  from assms obtain s1 where a: "confirm_anchors c odom_read (advance_cursor rec s) = Inr s1"
    and g: "update_goal_distances s1 = Inr s'"
    by (rule pass_to_next_goal_steps)
  have f: "initial_compensation_rotation_factor s' = initial_compensation_rotation_factor s1"
    "initial_compensation_translation_factor s' = initial_compensation_translation_factor s1"
    using update_goal_distances_fields(1,2)[OF g] by simp_all
  show ?thesis
  proof (intro conjI allI impI)
    fix rr
    assume "record_T_odomA_odomB_rotation s = Some rr"
      and "\<bar>rr\<bar> \<le> initial_compensation_rotation_threshold c"
    then have "initial_compensation_rotation_factor s' = initial_compensation_rotation_factor s
         \<or> moving_average (initial_compensation_rotation_update_rate c)
              (initial_compensation_rotation_factor s) (initial_compensation_rotation_factor s)
            = Inr (initial_compensation_rotation_factor s')"
      using confirm_anchors_rotation[OF a, of rr] f(1) by (simp add: advance_cursor_fields)
    then show "\<bar>initial_compensation_rotation_factor s'
                    - initial_compensation_rotation_factor s\<bar>
                  \<le> 4 * (\<bar>initial_compensation_rotation_update_rate c\<bar>
                          + \<bar>1 - initial_compensation_rotation_update_rate c\<bar>)
                        * \<bar>initial_compensation_rotation_factor s\<bar> / 2 ^ 53
                    + 4 * (1 + \<bar>initial_compensation_rotation_factor s\<bar>) / 2 ^ 1075"
      by (rule moving_average_fixed_cases)
  next
    fix rt
    assume "record_T_odomA_odomB_translation s = Some rt"
      and "rt \<le> initial_compensation_translation_threshold c"
    then have "initial_compensation_translation_factor s'
           = initial_compensation_translation_factor s
         \<or> moving_average (initial_compensation_translation_update_rate c)
              (initial_compensation_translation_factor s)
              (initial_compensation_translation_factor s)
            = Inr (initial_compensation_translation_factor s')"
      using confirm_anchors_translation[OF a, of rt] f(2) by (simp add: advance_cursor_fields)
    then show "\<bar>initial_compensation_translation_factor s'
                    - initial_compensation_translation_factor s\<bar>
                  \<le> 4 * (\<bar>initial_compensation_translation_update_rate c\<bar>
                          + \<bar>1 - initial_compensation_translation_update_rate c\<bar>)
                        * \<bar>initial_compensation_translation_factor s\<bar> / 2 ^ 53
                    + 4 * (1 + \<bar>initial_compensation_translation_factor s\<bar>) / 2 ^ 1075"
      by (rule moving_average_fixed_cases)
  qed
qed

text \<open>
  C4 as stated fails: with the update rate 0.2 and both factors at 0.9, an advance that
  runs the factor update with the recorded rotation (0) and translation (1) within their
  thresholds (0.1 and 2) moves both factors from \<open>8106479329266893 / 2 ^ 53\<close> to
  \<open>8106479329266894 / 2 ^ 53\<close>, the next double (0.9000000000000001).
\<close>

theorem correction_factors_counterexample:
  "pass_to_next_goal cfg_drift (Some (3, pose_at 3)) (pose_at 0) s_drift = Inr s_drift_next
   \<and> T_0_odomA s_drift = Some (pose_at 0) \<and> T_0_odomB s_drift = Some (pose_at 1)
   \<and> record_T_odomA_odomB_rotation s_drift = Some 0
   \<and> \<bar>0 :: real\<bar> \<le> initial_compensation_rotation_threshold cfg_drift
   \<and> record_T_odomA_odomB_translation s_drift = Some 1
   \<and> 1 \<le> initial_compensation_translation_threshold cfg_drift
   \<and> initial_compensation_rotation_factor s_drift = 8106479329266893 / 2 ^ 53
   \<and> initial_compensation_rotation_factor s_drift_next = 8106479329266894 / 2 ^ 53
   \<and> initial_compensation_rotation_factor s_drift_next
       \<noteq> initial_compensation_rotation_factor s_drift
   \<and> initial_compensation_translation_factor s_drift_next
       \<noteq> initial_compensation_translation_factor s_drift"
proof -
  have "T_0_odomA s_drift = Some (pose_at 0)" "T_0_odomB s_drift = Some (pose_at 1)"
    "record_T_odomA_odomB_rotation s_drift = Some 0"
    "\<bar>0 :: real\<bar> \<le> initial_compensation_rotation_threshold cfg_drift"
    "record_T_odomA_odomB_translation s_drift = Some 1"
    "1 \<le> initial_compensation_translation_threshold cfg_drift"
    by (simp_all add: s_drift_def s_mid_def cfg_drift_def cfg0_def)
  moreover have "initial_compensation_rotation_factor s_drift = 8106479329266893 / 2 ^ 53"
    "initial_compensation_rotation_factor s_drift_next = 8106479329266894 / 2 ^ 53"
    "initial_compensation_rotation_factor s_drift_next
       \<noteq> initial_compensation_rotation_factor s_drift"
    "initial_compensation_translation_factor s_drift_next
       \<noteq> initial_compensation_translation_factor s_drift"
    by (simp_all add: s_drift_def s_drift_next_def double_0_9_def double_0_9_next_def)
  ultimately show ?thesis using pass_drift by simp
qed

theorem correction_factors_carried_over_witness:
  "pass_to_next_goal cfg_drift (Some (3, pose_at 3)) (pose_at 0) s_drift = Inr s_drift_next
   \<and> record_T_odomA_odomB_rotation s_drift = Some 0
   \<and> \<bar>0 :: real\<bar> \<le> initial_compensation_rotation_threshold cfg_drift
   \<and> record_T_odomA_odomB_translation s_drift = Some 1
   \<and> 1 \<le> initial_compensation_translation_threshold cfg_drift
   \<and> initial_compensation_rotation_factor s_drift_next
       - initial_compensation_rotation_factor s_drift = 1 / 2 ^ 53
   \<and> \<bar>initial_compensation_rotation_factor s_drift_next
        - initial_compensation_rotation_factor s_drift\<bar>
      \<le> 4 * (\<bar>initial_compensation_rotation_update_rate cfg_drift\<bar>
              + \<bar>1 - initial_compensation_rotation_update_rate cfg_drift\<bar>)
            * \<bar>initial_compensation_rotation_factor s_drift\<bar> / 2 ^ 53
        + 4 * (1 + \<bar>initial_compensation_rotation_factor s_drift\<bar>) / 2 ^ 1075
   \<and> \<bar>initial_compensation_translation_factor s_drift_next
        - initial_compensation_translation_factor s_drift\<bar>
      \<le> 4 * (\<bar>initial_compensation_translation_update_rate cfg_drift\<bar>
              + \<bar>1 - initial_compensation_translation_update_rate cfg_drift\<bar>)
            * \<bar>initial_compensation_translation_factor s_drift\<bar> / 2 ^ 53
        + 4 * (1 + \<bar>initial_compensation_translation_factor s_drift\<bar>) / 2 ^ 1075"
proof -
  have h: "record_T_odomA_odomB_rotation s_drift = Some 0"
    "\<bar>0 :: real\<bar> \<le> initial_compensation_rotation_threshold cfg_drift"
    "record_T_odomA_odomB_translation s_drift = Some 1"
    "1 \<le> initial_compensation_translation_threshold cfg_drift"
    by (simp_all add: s_drift_def s_mid_def cfg_drift_def cfg0_def)
  have d: "initial_compensation_rotation_factor s_drift_next
       - initial_compensation_rotation_factor s_drift = 1 / 2 ^ 53"
    using double_0_9_next_differs by (simp add: s_drift_def s_drift_next_def)
  from correction_factors_carried_over[OF pass_drift] h d pass_drift show ?thesis by blast
qed

lemma py_index_last: "xs \<noteq> [] \<Longrightarrow> py_index xs (- 1) = Inr (last xs)"
  by (cases xs rule: rev_cases) (auto simp: py_index_def nat_add_distrib)

lemma update_goal_distances_unfold:
  "update_goal_distances s =
     (case py_index (q s) (- 2) of
        Inl e \<Rightarrow> Inl e
      | Inr None \<Rightarrow> Inr s
      | Inr (Some (i2, T2)) \<Rightarrow>
          (case py_index (q s) (- 1) of
             Inl e \<Rightarrow> Inl e
           | Inr None \<Rightarrow> Inr s
           | Inr (Some (i1, T1)) \<Rightarrow>
               (case py_index (goal_distances s) (- 1) of
                  Inl e \<Rightarrow> Inl e
                | Inr d \<Rightarrow> Inr (s\<lparr>goal_distances := goal_distances s
                                     @ [d + t3d_norm (vsub (edt T1) (edt T2))]\<rparr>))))"
  by (simp add: update_goal_distances_def bindE_def split: sum.split option.split prod.split)

lemma update_goal_distances_result:
  assumes "update_goal_distances s = Inr s'" and "goal_distances s \<noteq> []"
  shows "goal_distances s' = goal_distances s
         @ (case (py_index (q s) (- 2), py_index (q s) (- 1)) of
              (Inr (Some (i2, T2)), Inr (Some (i1, T1))) \<Rightarrow>
                 [last (goal_distances s) + t3d_norm (vsub (edt T1) (edt T2))]
            | _ \<Rightarrow> [])"
proof (cases "py_index (q s) (- 2)")
  case (Inl e)
  with assms show ?thesis by (simp add: update_goal_distances_unfold)
next
  case q2: (Inr e2)
  show ?thesis
  proof (cases e2)
    case None
    with assms q2 show ?thesis by (simp add: update_goal_distances_unfold)
  next
    case (Some w2)
    obtain i2 T2 where w2: "w2 = (i2, T2)" by (cases w2)
    show ?thesis
    proof (cases "py_index (q s) (- 1)")
      case (Inl e)
      with assms q2 Some w2 show ?thesis by (simp add: update_goal_distances_unfold)
    next
      case q1: (Inr e1)
      show ?thesis
      proof (cases e1)
        case None
        with assms q2 Some w2 q1 show ?thesis by (simp add: update_goal_distances_unfold)
      next
        case s1: (Some w1)
        obtain i1 T1 where w1: "w1 = (i1, T1)" by (cases w1)
        from assms q2 Some w2 q1 s1 w1 show ?thesis
          by (auto simp: update_goal_distances_unfold py_index_last)
      qed
    qed
  qed
qed

lemma confirm_anchors_fields:
  assumes "confirm_anchors c od s = Inr s'"
  shows "goal_distances s' = goal_distances s" and "q s' = q s" and "goal_idx s' = goal_idx s"
    and "passed_goal s' = passed_goal s" and "actuator_command s' = actuator_command s"
  using confirm_anchors_cases[OF assms]
  by (auto simp: update_anchors_fields dest: update_factors_fields)

lemma advance_cursor_passed_goal:
  "passed_goal (advance_cursor rec s)
   = passed_goal s @ (if 0 \<le> goal_idx s + 1 then [Some (goal_idx s + 1)] else [])"
  by (simp add: advance_cursor_def Let_def)

lemma pass_to_next_goal_goal_distances:
  assumes "pass_to_next_goal c rec od s = Inr s'" and "goal_distances s \<noteq> []"
  shows "goal_distances s' = goal_distances s
         @ (case (py_index (q s') (- 2), py_index (q s') (- 1)) of
              (Inr (Some (i2, T2)), Inr (Some (i1, T1))) \<Rightarrow>
                 [last (goal_distances s) + t3d_norm (vsub (edt T1) (edt T2))]
            | _ \<Rightarrow> [])"
proof -
  from assms(1) obtain s1 where a: "confirm_anchors c od (advance_cursor rec s) = Inr s1"
    and g: "update_goal_distances s1 = Inr s'"
    by (rule pass_to_next_goal_steps)
  have gd: "goal_distances s1 = goal_distances s"
    using confirm_anchors_fields(1)[OF a] by (simp add: advance_cursor_fields)
  have "q s' = q s1" using update_goal_distances_fields(5)[OF g] .
  with update_goal_distances_result[OF g] gd assms(2) show ?thesis
    by (simp split: sum.splits option.splits prod.splits)
qed

lemma t3d_norm_nonneg: "0 \<le> t3d_norm v"
  by (cases v) simp

lemma sorted_le_last: "sorted xs \<Longrightarrow> x \<in> set xs \<Longrightarrow> (x::real) \<le> last xs"
  by (induction xs) auto

lemma sorted_snoc_last:
  "xs \<noteq> [] \<Longrightarrow> sorted xs \<Longrightarrow> 0 \<le> (d::real) \<Longrightarrow> sorted (xs @ [last xs + d])"
  using sorted_le_last[of xs] by (fastforce simp: sorted_append)

lemma pass_to_next_goal_gd_inv:
  assumes "pass_to_next_goal c rec od s = Inr s'" and "gd_inv s"
  shows "gd_inv s'"
proof -
  from assms(2) have ne: "goal_distances s \<noteq> []" by (simp add: gd_inv_def)
  note r = pass_to_next_goal_goal_distances[OF assms(1) ne]
  show ?thesis
    using r assms(2) sorted_snoc_last[of "goal_distances s"] t3d_norm_nonneg
    by (auto simp: gd_inv_def split: sum.splits option.splits prod.splits)
qed

lemma advances_gd_inv:
  "advances c reads s = Inr s' \<Longrightarrow> gd_inv s \<Longrightarrow> gd_inv s'"
proof (induction reads arbitrary: s)
  case Nil
  then show ?case by simp
next
  case (Cons a reads)
  obtain rec od where a: "a = (rec, od)" by (cases a)
  from Cons.prems(1) obtain s1 where s1: "pass_to_next_goal c rec od s = Inr s1"
    and rest: "advances c reads s1 = Inr s'"
    by (auto simp: a bindE_Inr)
  from pass_to_next_goal_gd_inv[OF s1 Cons.prems(2)] Cons.IH[OF rest] show ?case by blast
qed

lemma init_gd_inv: "gd_inv (init_controller c)"
  by (simp add: gd_inv_def init_controller_def)


lemma pass_to_next_goal_unfold:
  "pass_to_next_goal c rec od s =
     (case confirm_anchors c od (advance_cursor rec s) of
        Inl e \<Rightarrow> Inl e | Inr s1 \<Rightarrow> update_goal_distances s1)"
  by (simp add: pass_to_next_goal_def bindE_def)

lemma warm_up_reads3: "warm_up cfg0 reads3 (init_controller cfg0) = Inr s_mid"
  by (simp add: reads3_def init_controller_def q_size_def max_rps_def eval_defs)

lemma advances_reads3: "advances cfg0 reads3 (init_controller cfg0) = Inr s_mid"
  by (simp add: reads3_def init_controller_def q_size_def max_rps_def eval_defs)

text \<open>
  C5: the cumulative distances start as \<open>[0]\<close>; after any number of successful advances
  they are sorted in non-decreasing order; and a further advance appends nothing, or,
  when the two newest window entries are waypoints, the previous last element plus the
  norm of the difference of their translations, which is not negative.
\<close>

theorem goal_distances_monotone:
  "goal_distances (init_controller c :: 'img controller) = [0]
   \<and> (\<forall>reads s. advances c reads (init_controller c :: 'img controller) = Inr s \<longrightarrow>
         sorted (goal_distances s)
         \<and> (\<forall>rec od s'. pass_to_next_goal c rec od s = Inr s' \<longrightarrow>
               goal_distances s' = goal_distances s
                 @ (case (py_index (q s') (- 2), py_index (q s') (- 1)) of
                      (Inr (Some (i2, T2)), Inr (Some (i1, T1))) \<Rightarrow>
                        [last (goal_distances s) + t3d_norm (vsub (edt T1) (edt T2))]
                    | _ \<Rightarrow> [])
               \<and> last (goal_distances s) \<le> last (goal_distances s')))"
proof (intro conjI allI impI)
  show "goal_distances (init_controller c :: 'img controller) = [0]"
    by (simp add: init_controller_def)
next
  fix reads and s :: "'img controller"
  assume "advances c reads (init_controller c) = Inr s"
  from advances_gd_inv[OF this init_gd_inv] show "sorted (goal_distances s)"
    by (simp add: gd_inv_def)
next
  fix reads rec od and s s' :: "'img controller"
  assume a: "advances c reads (init_controller c) = Inr s"
    and p: "pass_to_next_goal c rec od s = Inr s'"
  from advances_gd_inv[OF a init_gd_inv] have ne: "goal_distances s \<noteq> []"
    by (simp add: gd_inv_def)
  show "goal_distances s' = goal_distances s
          @ (case (py_index (q s') (- 2), py_index (q s') (- 1)) of
               (Inr (Some (i2, T2)), Inr (Some (i1, T1))) \<Rightarrow>
                 [last (goal_distances s) + t3d_norm (vsub (edt T1) (edt T2))]
             | _ \<Rightarrow> [])"
    by (rule pass_to_next_goal_goal_distances[OF p ne])
  then show "last (goal_distances s) \<le> last (goal_distances s')"
    using ne t3d_norm_nonneg by (auto split: sum.splits option.splits prod.splits)
qed

theorem goal_distances_monotone_witness:
  "advances cfg0 reads3 (init_controller cfg0) = Inr s_mid
   \<and> goal_distances s_mid = [0, 1, 2] \<and> sorted (goal_distances s_mid)
   \<and> (\<exists>s'. pass_to_next_goal cfg0 (Some (3, pose_at 3)) (pose_at 0) s_mid = Inr s'
           \<and> last (goal_distances s_mid) \<le> last (goal_distances s'))"
proof -
  obtain s' where s': "pass_to_next_goal cfg0 (Some (3, pose_at 3)) (pose_at 0) s_mid = Inr s'"
    using s_mid_advance by blast
  have g: "goal_distances s_mid = [0, 1, 2]" by (simp add: s_mid_def)
  from goal_distances_monotone[of cfg0, where 'img = real] advances_reads3 s' g
  show ?thesis by blast
qed

section \<open>The suppression step and the along-path correction\<close>

lemma list_max_Max: "list_max m xs = Max (set (m # xs))"
proof (induction xs arbitrary: m)
  case Nil
  then show ?case by simp
next
  case (Cons x xs)
  have "Max (insert (max m x) (set xs)) = Max (insert m (insert x (set xs)))"
    by (cases "set xs = {}") (auto simp: max.assoc)
  with Cons show ?case by simp
qed

lemma np_max_Max: "xs \<noteq> [] \<Longrightarrow> np_max xs = Inr (Max (set xs))"
  by (cases xs) (simp_all add: np_max_def list_max_Max)

lemma np_max_Nil: "np_max [] = Inl ValueError"
  by (simp add: np_max_def)

lemma suppress_below_second_distinct:
  assumes "a \<in> set vs" and "b \<in> set vs" and "a \<noteq> b"
  shows "suppress_below_second vs
         = Inr (map (\<lambda>v. if v < Max (set vs - {Max (set vs)}) then 0 else v) vs)"
proof -
  from assms(1) have ne: "vs \<noteq> []" by auto
  let ?top = "Max (set vs)"
  have "a \<noteq> ?top \<or> b \<noteq> ?top" using assms(3) by auto
  with assms(1,2) have "filter (\<lambda>v. v \<noteq> ?top) vs \<noteq> []"
    by (auto simp: filter_empty_conv)
  moreover have "set (filter (\<lambda>v. v \<noteq> ?top) vs) = set vs - {?top}" by auto
  ultimately have "np_max (filter (\<lambda>v. v \<noteq> ?top) vs) = Inr (Max (set vs - {?top}))"
    using np_max_Max[of "filter (\<lambda>v. v \<noteq> ?top) vs"] by simp
  then show ?thesis
    by (simp add: suppress_below_second_def np_max_Max[OF ne])
qed

lemma second_le_top:
  assumes "a \<in> set vs" and "b \<in> set vs" and "a \<noteq> b"
  shows "Max (set vs - {Max (set vs)}) < Max (set (vs::real list))"
proof -
  let ?top = "Max (set vs)"
  have "a \<noteq> ?top \<or> b \<noteq> ?top" using assms(3) by auto
  with assms(1,2) have ne: "set vs - {?top} \<noteq> {}" by auto
  have fin: "finite (set vs - {?top})" by simp
  from Max_in[OF fin ne] have m: "Max (set vs - {?top}) \<in> set vs" "Max (set vs - {?top}) \<noteq> ?top"
    by auto
  from m(1) have "Max (set vs - {?top}) \<le> ?top" by simp
  with m(2) show ?thesis by simp
qed

text \<open>
  C3: for scores with at least two distinct values the suppression step succeeds, keeps
  the length, replaces every score strictly below the second-highest distinct value
  (the maximum of the scores other than the maximum) by 0, and leaves unchanged every score
  that is at least the second-highest distinct value, the global maximum among them.
\<close>

theorem suppression_keeps_top_two:
  assumes "a \<in> set vs" and "b \<in> set vs" and "a \<noteq> b"
  shows "\<exists>kept. suppress_below_second vs = Inr kept \<and> length kept = length vs
           \<and> (\<forall>i<length vs.
                 (vs ! i < Max (set vs - {Max (set vs)}) \<longrightarrow> kept ! i = 0)
               \<and> (Max (set vs - {Max (set vs)}) \<le> vs ! i \<longrightarrow> kept ! i = vs ! i)
               \<and> (vs ! i = Max (set vs) \<longrightarrow> kept ! i = vs ! i))"
  using suppress_below_second_distinct[OF assms] second_le_top[OF assms]
  by auto

theorem suppression_keeps_top_two_witness:
  "(1 / 5) \<in> set scores0 \<and> (9 / 10) \<in> set scores0 \<and> (1 / 5 :: real) \<noteq> 9 / 10
   \<and> (\<exists>kept. suppress_below_second scores0 = Inr kept \<and> length kept = length scores0
           \<and> (\<forall>i<length scores0.
                 (scores0 ! i < Max (set scores0 - {Max (set scores0)}) \<longrightarrow> kept ! i = 0)
               \<and> (Max (set scores0 - {Max (set scores0)}) \<le> scores0 ! i \<longrightarrow> kept ! i = scores0 ! i)
               \<and> (scores0 ! i = Max (set scores0) \<longrightarrow> kept ! i = scores0 ! i)))"
proof -
  have h: "(1 / 5) \<in> set scores0" "(9 / 10) \<in> set scores0" "(1 / 5 :: real) \<noteq> 9 / 10"
    by (simp_all add: scores0_def)
  from suppression_keeps_top_two[OF h] h show ?thesis by blast
qed

lemma suppress_below_second_all_equal:
  assumes "\<forall>v\<in>set vs. \<forall>w\<in>set vs. v = w"
  shows "suppress_below_second vs = Inl ValueError"
proof (cases vs)
  case Nil
  then show ?thesis by (simp add: suppress_below_second_def np_max_def)
next
  case (Cons x xs)
  then have ne: "vs \<noteq> []" by simp
  have "Max (set vs) \<in> set vs" using ne by (intro Max_in) auto
  with assms have "\<forall>v\<in>set vs. v = Max (set vs)" by blast
  then have "filter (\<lambda>v. v \<noteq> Max (set vs)) vs = []" by (auto simp: filter_empty_conv)
  then show ?thesis
    by (simp add: suppress_below_second_def np_max_Max[OF ne] np_max_Nil)
qed

lemma suppress_below_second_length:
  "suppress_below_second vs = Inr kept \<Longrightarrow> length kept = length vs \<and> vs \<noteq> []"
  by (auto simp: suppress_below_second_def bindE_Inr np_max_def)

lemma fl_div_zero_not_fin: "\<not> is_fin (fl_div (Fin v) (Fin 0))"
  by (simp add: inf_signed_def)

lemma fl_mul_not_fin: "\<not> is_fin a \<Longrightarrow> \<not> is_fin (fl_mul a b)"
  by (cases a; cases b) (simp_all add: inf_signed_def)

lemma fl_mul_not_fin2: "\<not> is_fin b \<Longrightarrow> \<not> is_fin (fl_mul a b)"
  by (cases a; cases b) (simp_all add: inf_signed_def)

lemma fl_add_not_fin: "\<not> is_fin a \<Longrightarrow> \<not> is_fin (fl_add a b)"
  by (cases a; cases b) simp_all

lemma fl_add_not_fin2: "\<not> is_fin b \<Longrightarrow> \<not> is_fin (fl_add a b)"
  by (cases a; cases b) simp_all

lemma fl_neg_not_fin: "\<not> is_fin a \<Longrightarrow> \<not> is_fin (fl_neg a)"
  by (cases a) simp_all

lemma fl_div_not_fin: "\<not> is_fin a \<Longrightarrow> \<not> is_fin (fl_div a (Fin y))"
  by (cases a) simp_all

lemma weighted_distance_zero_sum:
  assumes "weighted_distance kept ds = Inr delta" and "sum_list kept = 0" and "kept \<noteq> []"
  shows "\<not> is_fin delta"
proof -
  from assms(1) have len: "length kept = length ds"
    and d: "delta = fl_dot (map (\<lambda>v. fl_div (Fin v) (Fin (sum_list kept))) kept) ds"
    by (auto simp: weighted_distance_def split: if_splits)
  from assms(3) len obtain v vs e es where k: "kept = v # vs" and e: "ds = e # es"
    by (cases kept; cases ds) auto
  show ?thesis
    unfolding d k e using assms(2) fl_div_zero_not_fin[of v]
    by (simp add: fl_dot_def k fl_add_not_fin fl_mul_not_fin)
qed

text \<open>
  What the code does on a degenerate scan, in general: equal scores end the along-path
  correction with ValueError, and kept scores that sum to zero give a weighted distance
  and a correction that are infinite or NaN.
\<close>

lemma along_path_degenerate:
  "((\<forall>v\<in>set vs. \<forall>w\<in>set vs. v = w) \<longrightarrow> along_path c l vs ds = Inl ValueError)
   \<and> (\<forall>kept delta apc.
         suppress_below_second vs = Inr kept \<and> sum_list kept = 0
         \<and> along_path c l vs ds = Inr (delta, apc)
         \<longrightarrow> \<not> is_fin delta \<and> \<not> is_fin apc)"
proof (intro conjI allI impI)
  assume "\<forall>v\<in>set vs. \<forall>w\<in>set vs. v = w"
  then show "along_path c l vs ds = Inl ValueError"
    by (simp add: along_path_def suppress_below_second_all_equal)
next
  fix kept delta apc
  assume a: "suppress_below_second vs = Inr kept \<and> sum_list kept = 0
             \<and> along_path c l vs ds = Inr (delta, apc)"
  then have ne: "kept \<noteq> []" using suppress_below_second_length by fastforce
  from a have w: "weighted_distance kept ds = Inr delta"
    and apc: "apc = fl_div (fl_sub (Fin l) (fl_mul (Fin (k_along_path c)) delta)) (Fin l)"
    by (auto simp: along_path_def bindE_Inr)
  from a have z: "sum_list kept = 0" by simp
  show "\<not> is_fin delta" by (rule weighted_distance_zero_sum[OF w z ne])
  then show "\<not> is_fin apc"
    unfolding apc fl_sub_def
    by (intro fl_div_not_fin fl_add_not_fin2 fl_neg_not_fin fl_mul_not_fin2)
qed

section \<open>The Ackermann actuator: setpoints and odometry\<close>

lemma lessThan_7: "{..<7::nat} = {0, 1, 2, 3, 4, 5, 6}" by auto
lemma lessThan_8: "{..<8::nat} = {0, 1, 2, 3, 4, 5, 6, 7}" by auto

lemma sin_poly7: "(\<Sum>m<7. sin_coeff m * x ^ m) = x - x ^ 3 / 6 + x ^ 5 / 120" for x :: real
  by (simp add: lessThan_7 sin_coeff_def fact_numeral)

lemma cos_poly8: "(\<Sum>m<8. cos_coeff m * x ^ m) = 1 - x ^ 2 / 2 + x ^ 4 / 24 - x ^ 6 / 720" for x :: real
  by (simp add: lessThan_8 cos_coeff_def fact_numeral)

lemma sin_06: "5646 / 10000 < sin (3 / 5 :: real)" "sin (3 / 5 :: real) < 5647 / 10000"
proof -
  have "\<bar>sin (3/5::real) - (\<Sum>m<7. sin_coeff m * (3/5) ^ m)\<bar> \<le> inverse (fact 7) * \<bar>3/5\<bar> ^ 7"
    by (rule Maclaurin_sin_bound)
  then have "\<bar>sin (3/5::real) - (3/5 - (3/5) ^ 3 / 6 + (3/5) ^ 5 / 120)\<bar> \<le> (3/5) ^ 7 / 5040"
    by (simp add: sin_poly7 fact_numeral)
  moreover have "(3/5 - (3/5) ^ 3 / 6 + (3/5) ^ 5 / 120 :: real) = 70581 / 125000"
    by (simp add: power_divide)
  moreover have "((3/5) ^ 7 / 5040 :: real) < 1 / 100000"
    by (simp add: power_divide)
  ultimately have "\<bar>sin (3/5::real) - 70581 / 125000\<bar> < 1 / 100000" by simp
  then show "5646 / 10000 < sin (3 / 5 :: real)" "sin (3 / 5 :: real) < 5647 / 10000"
    by linarith+
qed

lemma cos_06: "8253 / 10000 < cos (3 / 5 :: real)" "cos (3 / 5 :: real) < 8254 / 10000"
proof -
  obtain t where t: "cos (3/5::real) = (\<Sum>m<8. cos_coeff m * (3/5) ^ m)
      + (cos (t + 1/2 * real (8::nat) * pi) / fact 8) * (3/5) ^ 8"
    using Maclaurin_cos_expansion[of "3/5" 8] by blast
  define P :: real where "P = 1 - (3/5) ^ 2 / 2 + (3/5) ^ 4 / 24 - (3/5) ^ 6 / 720"
  define E :: real where "E = (3/5) ^ 8 / 40320"
  define k where "k = cos (t + 1/2 * real (8::nat) * pi)"
  have e: "cos (3/5::real) = P + k * E"
    using t by (simp add: cos_poly8 fact_numeral P_def E_def k_def)
  have "0 \<le> E" by (simp add: E_def)
  moreover have "\<bar>k\<bar> \<le> 1" by (simp add: k_def abs_le_iff)
  ultimately have "\<bar>k * E\<bar> \<le> 1 * E"
    unfolding abs_mult by (intro mult_mono) simp_all
  moreover have "P = 1031669 / 1250000" by (simp add: P_def power_divide)
  moreover have "E < 1 / 100000" by (simp add: E_def power_divide)
  ultimately have "\<bar>cos (3/5::real) - 1031669 / 1250000\<bar> < 1 / 100000"
    using e by linarith
  then show "8253 / 10000 < cos (3 / 5 :: real)" "cos (3 / 5 :: real) < 8254 / 10000"
    by linarith+
qed

lemma tan_06: "6840 / 10000 < tan (3 / 5 :: real)" "tan (3 / 5 :: real) < 6843 / 10000"
proof -
  note s = sin_06 and c = cos_06
  have cp: "0 < cos (3/5::real)" using c(1) by simp
  have "6840 / 10000 * cos (3/5::real) < sin (3/5)" using s(1) c(2) by simp
  then show "6840 / 10000 < tan (3 / 5 :: real)"
    unfolding tan_def using cp by (simp add: pos_less_divide_eq)
  have "sin (3/5::real) < 6843 / 10000 * cos (3/5)" using s(2) c(1) by simp
  then show "tan (3 / 5 :: real) < 6843 / 10000"
    unfolding tan_def using cp by (simp add: pos_divide_less_eq)
qed

lemma Rm0_bounds: "1419 / 1000 < Rm0" "Rm0 < 1420 / 1000"
proof -
  note t = tan_06
  have tp: "0 < tan (3/5::real)" using t(1) by simp
  have "4 / 5 / tan (3/5::real) < 1170 / 1000"
    using tp t(1) by (simp add: pos_divide_less_eq)
  then show "Rm0 < 1420 / 1000" by (simp add: Rm0_def)
  have "1169 / 1000 < 4 / 5 / tan (3/5::real)"
    using tp t(2) by (simp add: pos_less_divide_eq)
  then show "1419 / 1000 < Rm0" by (simp add: Rm0_def)
qed

lemma R_min_abs_ack0: "R_min_abs ack0 = Fin Rm0"
proof -
  have "cos (3/5::real) \<noteq> 0" using cos_06(1) by simp
  moreover have "tan (3/5::real) \<noteq> 0" using tan_06(1) by simp
  ultimately show ?thesis by (simp add: R_min_abs_def ack0_def Rm0_def)
qed

lemma command_radius_ack0:
  "command_radius ack0 (VW (Fin 1) (Fin 2)) = (Fin 1, Fin Rm0, Fin (1 / 2))"
  by (simp add: command_radius_def R_min_abs_ack0 Let_def)

lemma arctan_tan_06: "arctan (4 / 5 / (Rm0 - 1 / 4)) = 3 / 5"
proof -
  have "tan (3/5::real) \<noteq> 0" using tan_06(1) by simp
  then have "4 / 5 / (Rm0 - 1 / 4) = tan (3 / 5)" by (simp add: Rm0_def)
  moreover have "arctan (tan (3/5::real)) = 3 / 5"
    using pi_ge_two by (intro arctan_tan) simp_all
  ultimately show ?thesis by simp
qed

text \<open>
  C2, as amended: with track 0.5, wheelbase 0.8, wheel radius 0.15 and maximum steering
  angle 0.6 the minimum turning radius is \<open>0.8 / tan 0.6 + 0.25\<close>, between 1.419 and
  1.420; the command \<open>('vw', 1.0, 2.0)\<close> has the raw radius 0.5, which is replaced by the
  minimum radius with its sign kept, and gives the steering angles
  \<open>atan (0.8 / (R_min + 0.25))\<close> and \<open>atan (0.8 / (R_min - 0.25))\<close>, the latter being the
  maximum steering angle 0.6, and the rear wheel speed \<open>1.0 / 0.15 = 20 / 3\<close>, within a
  thousandth of 6.667.
\<close>

theorem end_to_end_setpoints:
  "R_min_abs ack0 = Fin Rm0 \<and> 1419 / 1000 < Rm0 \<and> Rm0 < 1420 / 1000
   \<and> command_radius ack0 (VW (Fin 1) (Fin 2)) = (Fin 1, Fin Rm0, Fin (1 / 2))
   \<and> wheel_setpoints ack0 (VW (Fin 1) (Fin 2))
       = ((Fin (arctan (4 / 5 / (Rm0 + 1 / 4))), Fin (arctan (4 / 5 / (Rm0 - 1 / 4))),
           Fin (20 / 3)),
          (Fin 1, Fin Rm0))
   \<and> arctan (4 / 5 / (Rm0 - 1 / 4)) = 3 / 5
   \<and> \<bar>20 / 3 - 6667 / 1000 :: real\<bar> < 1 / 1000"
proof -
  note b = Rm0_bounds
  have "Rm0 + 1 / 4 \<noteq> 0" "Rm0 - 1 / 4 \<noteq> 0" "1 / 2 < \<bar>Rm0\<bar>" using b by simp_all
  then have "wheel_setpoints ack0 (VW (Fin 1) (Fin 2))
       = ((Fin (arctan (4 / 5 / (Rm0 + 1 / 4))), Fin (arctan (4 / 5 / (Rm0 - 1 / 4))),
           Fin (20 / 3)),
          (Fin 1, Fin Rm0))"
    by (simp add: wheel_setpoints_def command_radius_ack0 fl_sub_def Let_def)
       (simp add: ack0_def)
  with b R_min_abs_ack0 command_radius_ack0 arctan_tan_06 show ?thesis by simp
qed

text \<open>
  C2 as stated fails: the minimum turning radius of this configuration differs from
  1.439 by more than 0.019.
\<close>

theorem end_to_end_radius_counterexample:
  "R_min_abs ack0 = Fin Rm0 \<and> 19 / 1000 < \<bar>Rm0 - 1439 / 1000\<bar>"
  using R_min_abs_ack0 Rm0_bounds by simp

lemma vadd_vneg: "vadd a (vneg b) = vsub a b"
  by (cases a; cases b) simp

text \<open>
  C1: for every pose with rotation entries \<open>a .. i\<close> (rows first) and translation
  \<open>(x, y, z)\<close>, finite linear velocity \<open>v\<close> and time step \<open>dt\<close>: when the turning radius
  exceeds 1e9 (infinity included) the rotation stays and the translation moves by \<open>v dt\<close>
  along the heading, the first column \<open>(a, d, g)\<close> of the rotation; for every other
  radius \<open>r\<close> that is a non-zero number, with \<open>theta = v dt / r\<close>, the rotation becomes
  \<open>Rz(theta) R\<close>, whose first two rows are the old ones turned by \<open>theta\<close>, and the
  translation becomes \<open>t + PR - Rz(theta) PR\<close> with \<open>PR = R (0, r, 0) = r (b, e, h)\<close>.
  For a pose in the plane with yaw \<open>psi\<close> this is the motion along a circle of radius
  \<open>r\<close> about the centre \<open>(x - r sin psi, y + r cos psi)\<close>: the yaw becomes \<open>psi + theta\<close>
  and the position \<open>(x + r (sin (psi + theta) - sin psi), y - r (cos (psi + theta) - cos psi))\<close>;
  with an infinite radius the position moves to \<open>(x + v dt cos psi, y + v dt sin psi)\<close>.
\<close>

theorem ackermann_odometry_integration:
  "(fl_lt (Fin (10 ^ 9)) R \<longrightarrow>
      calc_and_output_odom (Fin v) R dt
        \<lparr>edR = ((a, b, c), (d, e, f), (g, h, i)), edt = (x, y, z)\<rparr>
      = Inr \<lparr>edR = ((a, b, c), (d, e, f), (g, h, i)),
             edt = (x + v * dt * a, y + v * dt * d, z + v * dt * g)\<rparr>)
   \<and> (\<forall>r theta. R = Fin r \<and> r \<le> 10 ^ 9 \<and> r \<noteq> 0 \<and> theta = v * dt / r \<longrightarrow>
         calc_and_output_odom (Fin v) R dt
           \<lparr>edR = ((a, b, c), (d, e, f), (g, h, i)), edt = (x, y, z)\<rparr>
         = Inr \<lparr>edR = ((cos theta * a - sin theta * d, cos theta * b - sin theta * e,
                        cos theta * c - sin theta * f),
                       (sin theta * a + cos theta * d, sin theta * b + cos theta * e,
                        sin theta * c + cos theta * f),
                       (g, h, i)),
                edt = (x + r * b - (cos theta * (r * b) - sin theta * (r * e)),
                       y + r * e - (sin theta * (r * b) + cos theta * (r * e)),
                       z)\<rparr>)
   \<and> (\<forall>r theta. R = Fin r \<and> r \<le> 10 ^ 9 \<and> r \<noteq> 0 \<and> theta = v * dt / r \<longrightarrow>
         calc_and_output_odom (Fin v) R dt
           \<lparr>edR = ((cos psi, - sin psi, 0), (sin psi, cos psi, 0), (0, 0, 1)),
            edt = (x, y, z)\<rparr>
         = Inr \<lparr>edR = ((cos (psi + theta), - sin (psi + theta), 0),
                       (sin (psi + theta), cos (psi + theta), 0),
                       (0, 0, 1)),
                edt = (x + r * (sin (psi + theta) - sin psi),
                       y - r * (cos (psi + theta) - cos psi),
                       z)\<rparr>)
   \<and> (fl_lt (Fin (10 ^ 9)) R \<longrightarrow>
         calc_and_output_odom (Fin v) R dt
           \<lparr>edR = ((cos psi, - sin psi, 0), (sin psi, cos psi, 0), (0, 0, 1)),
            edt = (x, y, z)\<rparr>
         = Inr \<lparr>edR = ((cos psi, - sin psi, 0), (sin psi, cos psi, 0), (0, 0, 1)),
                edt = (x + v * dt * cos psi, y + v * dt * sin psi, z)\<rparr>)"
proof (intro conjI allI impI)
  assume "fl_lt (Fin (10 ^ 9)) R"
  then show "calc_and_output_odom (Fin v) R dt
        \<lparr>edR = ((a, b, c), (d, e, f), (g, h, i)), edt = (x, y, z)\<rparr>
      = Inr \<lparr>edR = ((a, b, c), (d, e, f), (g, h, i)),
             edt = (x + v * dt * a, y + v * dt * d, z + v * dt * g)\<rparr>"
    by (simp add: calc_and_output_odom_def Let_def algebra_simps)
next
  fix r theta
  assume "R = Fin r \<and> r \<le> 10 ^ 9 \<and> r \<noteq> 0 \<and> theta = v * dt / r"
  then show "calc_and_output_odom (Fin v) R dt
           \<lparr>edR = ((a, b, c), (d, e, f), (g, h, i)), edt = (x, y, z)\<rparr>
         = Inr \<lparr>edR = ((cos theta * a - sin theta * d, cos theta * b - sin theta * e,
                        cos theta * c - sin theta * f),
                       (sin theta * a + cos theta * d, sin theta * b + cos theta * e,
                        sin theta * c + cos theta * f),
                       (g, h, i)),
                edt = (x + r * b - (cos theta * (r * b) - sin theta * (r * e)),
                       y + r * e - (sin theta * (r * b) + cos theta * (r * e)),
                       z)\<rparr>"
    by (simp add: calc_and_output_odom_def Let_def euler2mat_z_def)
next
  fix r theta
  assume h: "R = Fin r \<and> r \<le> 10 ^ 9 \<and> r \<noteq> 0 \<and> theta = v * dt / r"
  then show "calc_and_output_odom (Fin v) R dt
           \<lparr>edR = ((cos psi, - sin psi, 0), (sin psi, cos psi, 0), (0, 0, 1)),
            edt = (x, y, z)\<rparr>
         = Inr \<lparr>edR = ((cos (psi + theta), - sin (psi + theta), 0),
                       (sin (psi + theta), cos (psi + theta), 0),
                       (0, 0, 1)),
                edt = (x + r * (sin (psi + theta) - sin psi),
                       y - r * (cos (psi + theta) - cos psi),
                       z)\<rparr>"
    by (simp add: calc_and_output_odom_def Let_def euler2mat_z_def cos_add sin_add
        algebra_simps)
next
  assume "fl_lt (Fin (10 ^ 9)) R"
  then show "calc_and_output_odom (Fin v) R dt
           \<lparr>edR = ((cos psi, - sin psi, 0), (sin psi, cos psi, 0), (0, 0, 1)),
            edt = (x, y, z)\<rparr>
         = Inr \<lparr>edR = ((cos psi, - sin psi, 0), (sin psi, cos psi, 0), (0, 0, 1)),
                edt = (x + v * dt * cos psi, y + v * dt * sin psi, z)\<rparr>"
    by (simp add: calc_and_output_odom_def Let_def algebra_simps)
qed

theorem ackermann_odometry_integration_witness:
  "fl_lt (Fin (10 ^ 9)) PInf
   \<and> calc_and_output_odom (Fin 1) PInf 2
        \<lparr>edR = ((0, - 1, 0), (1, 0, 0), (0, 0, 1)), edt = (1, 1, 0)\<rparr>
      = Inr \<lparr>edR = ((0, - 1, 0), (1, 0, 0), (0, 0, 1)), edt = (1, 3, 0)\<rparr>
   \<and> (2::real) \<le> 10 ^ 9 \<and> (2::real) \<noteq> 0
   \<and> calc_and_output_odom (Fin pi) (Fin 2) 1
        \<lparr>edR = ((0, - 1, 0), (1, 0, 0), (0, 0, 1)), edt = (1, 1, 0)\<rparr>
      = Inr \<lparr>edR = ((- 1, 0, 0), (0, - 1, 0), (0, 0, 1)), edt = (- 1, 3, 0)\<rparr>
   \<and> calc_and_output_odom (Fin pi) (Fin (- 2)) 1
        \<lparr>edR = ((1, 0, 0), (0, 1, 0), (0, 0, 1)), edt = (0, 0, 0)\<rparr>
      = Inr \<lparr>edR = ((0, 1, 0), (- 1, 0, 0), (0, 0, 1)), edt = (2, - 2, 0)\<rparr>"
proof -
  have a: "fl_lt (Fin (10 ^ 9)) PInf" by simp
  from ackermann_odometry_integration
         [where R = PInf and v = 1 and dt = 2 and a = 0 and b = "- 1" and c = 0
            and d = 1 and e = 0 and f = 0 and g = 0 and h = 0 and i = 1
            and x = 1 and y = 1 and z = 0 and psi = 0] a
  have 1: "calc_and_output_odom (Fin 1) PInf 2
        \<lparr>edR = ((0, - 1, 0), (1, 0, 0), (0, 0, 1)), edt = (1, 1, 0)\<rparr>
      = Inr \<lparr>edR = ((0, - 1, 0), (1, 0, 0), (0, 0, 1)), edt = (1, 3, 0)\<rparr>"
    by simp
  from ackermann_odometry_integration
         [where R = "Fin 2" and v = pi and dt = 1 and a = 0 and b = "- 1" and c = 0
            and d = 1 and e = 0 and f = 0 and g = 0 and h = 0 and i = 1
            and x = 1 and y = 1 and z = 0 and psi = 0]
  have 2: "calc_and_output_odom (Fin pi) (Fin 2) 1
        \<lparr>edR = ((0, - 1, 0), (1, 0, 0), (0, 0, 1)), edt = (1, 1, 0)\<rparr>
      = Inr \<lparr>edR = ((- 1, 0, 0), (0, - 1, 0), (0, 0, 1)), edt = (- 1, 3, 0)\<rparr>"
    by simp
  from ackermann_odometry_integration
         [where R = "Fin (- 2)" and v = pi and dt = 1 and a = 1 and b = 0 and c = 0
            and d = 0 and e = 1 and f = 0 and g = 0 and h = 0 and i = 1
            and x = 0 and y = 0 and z = 0 and psi = 0]
  have 3: "calc_and_output_odom (Fin pi) (Fin (- 2)) 1
        \<lparr>edR = ((1, 0, 0), (0, 1, 0), (0, 0, 1)), edt = (0, 0, 0)\<rparr>
      = Inr \<lparr>edR = ((0, 1, 0), (- 1, 0, 0), (0, 0, 1)), edt = (2, - 2, 0)\<rparr>"
    by simp
  from a 1 2 3 show ?thesis by simp
qed

section \<open>Frames from pose messages: validation\<close>






















section \<open>The control loop: what an iteration changes\<close>

lemma straight_segment_result:
  assumes "straight_segment c ncc width now live R A B s = Inr (adv, s')"
  shows "s' = s\<lparr>timer_P := now\<rparr> \<or> (\<exists>T. s' = s\<lparr>timer_P := now, T_0_odomB := Some T\<rparr>)"
  using assms
  unfolding straight_segment_def Let_def
  by (auto simp: bindE_Inr split: prod.splits if_splits)

lemma straight_segment_fields:
  assumes "straight_segment c ncc width now live R A B s = Inr (adv, s')"
  shows "passed_goal s' = passed_goal s" and "goal_idx s' = goal_idx s"
    and "actuator_command s' = actuator_command s" and "q s' = q s"
    and "goal_distances s' = goal_distances s"
  using straight_segment_result[OF assms] by auto

lemma speed_control_not_nan: "\<not> is_nan (snd (speed_control c R_min w0))"
  by (simp add: speed_control_def Let_def split: prod.splits)

lemma control_law_result:
  assumes "control_law c weights R s = Inr s'"
  shows "\<exists>v w. s' = s\<lparr>actuator_command := actuator_command s @ [VW v w]\<rparr> \<and> \<not> is_nan w"
proof -
  from assms obtain R_min w0 where
    "s' = s\<lparr>actuator_command := actuator_command s
            @ [VW (fst (speed_control c R_min w0)) (snd (speed_control c R_min w0))]\<rparr>"
    by (auto simp: control_law_def bindE_Inr case_prod_beta split: option.splits)
  then show ?thesis using speed_control_not_nan by blast
qed

lemma control_law_fields:
  assumes "control_law c weights R s = Inr s'"
  shows "passed_goal s' = passed_goal s" and "goal_idx s' = goal_idx s"
    and "q s' = q s" and "goal_distances s' = goal_distances s"
  using control_law_result[OF assms] by auto

lemma pass_to_next_goal_cursor:
  assumes "pass_to_next_goal c rec od s = Inr s'"
  shows "goal_idx s' = goal_idx s + 1"
    and "passed_goal s' = passed_goal s
           @ (if 0 \<le> goal_idx s + 1 then [Some (goal_idx s + 1)] else [])"
    and "actuator_command s' = actuator_command s"
proof -
  from assms obtain s1 where a: "confirm_anchors c od (advance_cursor rec s) = Inr s1"
    and g: "update_goal_distances s1 = Inr s'"
    by (rule pass_to_next_goal_steps)
  show "goal_idx s' = goal_idx s + 1"
    using update_goal_distances_fields(4)[OF g] confirm_anchors_fields(3)[OF a]
    by (simp add: advance_cursor_fields)
  show "passed_goal s' = passed_goal s
           @ (if 0 \<le> goal_idx s + 1 then [Some (goal_idx s + 1)] else [])"
    using update_goal_distances_fields(3)[OF g] confirm_anchors_fields(4)[OF a]
    by (simp add: advance_cursor_passed_goal)
  show "actuator_command s' = actuator_command s"
    using update_goal_distances_fields(6)[OF g] confirm_anchors_fields(5)[OF a]
    by (simp add: advance_cursor_fields)
qed

lemma upto_snoc: "0 \<le> g + 1 \<Longrightarrow> [0 .. g + 1] = [0 .. g] @ [g + 1]" for g :: int
  using upto_rec2[of 0 "g + 1"] by simp

lemma pass_to_next_goal_pg_inv:
  assumes "pass_to_next_goal c rec od s = Inr s'" and "pg_inv s"
  shows "pg_inv s'"
  using pass_to_next_goal_cursor(1,2)[OF assms(1)] assms(2)
  by (auto simp: pg_inv_def upto_snoc)

lemma init_pg_inv: "pg_inv (init_controller c)"
  by (simp add: pg_inv_def init_controller_def)

lemma warm_up_pg_inv:
  "warm_up c reads s = Inr s' \<Longrightarrow> pg_inv s \<Longrightarrow> pg_inv s' \<and> goal_idx s' = 0"
proof (induction reads arbitrary: s)
  case Nil
  then show ?case by (simp split: if_splits)
next
  case (Cons a reads)
  obtain rec od where a: "a = (rec, od)" by (cases a)
  show ?case
  proof (cases "goal_idx s = 0")
    case True
    with Cons.prems show ?thesis by (simp add: a)
  next
    case False
    with Cons.prems(1) obtain s1 where s1: "pass_to_next_goal c rec od s = Inr s1"
      and rest: "warm_up c reads s1 = Inr s'"
      by (auto simp: a bindE_Inr)
    from Cons.IH[OF rest pass_to_next_goal_pg_inv[OF s1 Cons.prems(2)]] show ?thesis .
  qed
qed

lemma cycle_cases:
  assumes "cycle c ncc width weights t live R s = Inr s'"
  shows "(\<exists>s1. (s1 = s \<or> s1 = s\<lparr>timer_P := tick_time t\<rparr>)
               \<and> pass_to_next_goal c (tick_record t) (tick_odom_read t) s1 = Inr s')
         \<or> (\<exists>s1. passed_goal s1 = passed_goal s \<and> goal_idx s1 = goal_idx s
                  \<and> actuator_command s1 = actuator_command s
                  \<and> control_law c weights R s1 = Inr s')"
proof -
  from assms obtain A B adv s1 where
    st: "(if \<not> t3d_norm (vsub (edt B) (edt A)) < distance_threshold c
          then straight_segment c ncc width (tick_time t) live R A B s
          else Inr (False, s)) = Inr (adv, s1)"
    and nx: "(if adv then pass_to_next_goal c (tick_record t) (tick_odom_read t) s1
             else control_law c weights R s1) = Inr s'"
    by (auto simp: cycle_def Let_def bindE_Inr split: option.splits)
  show ?thesis
  proof (cases "t3d_norm (vsub (edt B) (edt A)) < distance_threshold c")
    case True
    with st have "adv = False" "s1 = s" by simp_all
    with nx show ?thesis by auto
  next
    case False
    with st have ss: "straight_segment c ncc width (tick_time t) live R A B s = Inr (adv, s1)"
      by simp
    note f = straight_segment_fields[OF ss] and r = straight_segment_result[OF ss]
    show ?thesis
    proof (cases adv)
      case True
      with ss have "s1 = s\<lparr>timer_P := tick_time t\<rparr>"
        unfolding straight_segment_def Let_def
        by (auto simp: bindE_Inr split: prod.splits if_splits)
      with nx True show ?thesis by auto
    next
      case False
      with nx f show ?thesis by auto
    qed
  qed
qed

section \<open>A repeat of the three-waypoint path, step by step\<close>

lemmas geom_defs = pose_at_def compose_def einv_def mat_id_def mat_transpose_def
  mat2euler_z_def atan2_def euler2mat_z_def

lemma upt_3: "[0 ..< 3] = [0, 1, 2]" by (simp add: upt_rec)

lemma scan_mid: "scan_q_indices (along_path_radius cfg0) (q s_mid) = Inr [1, 1, 2]"
  by (simp add: scan_q_indices_def present_indices_def s_mid_def cfg0_def py_index_def upt_3)

lemmas corr_defs = scan_distances_of_def ncc_scan_def ncc0_def py_index_def
       along_path_def suppress_below_second_def np_max_def weighted_distance_def fl_dot_def fl_sub_def
       inf_signed_def

lemma ss_mid:
  "straight_segment cfg0 ncc0 width0 1 1 (pose_at 1) (pose_at 0) (pose_at 1) s_mid
   = Inr (True, s_mid\<lparr>timer_P := 1\<rparr>)"
  unfolding straight_segment_def
  by (simp add: scan_mid Let_def)
     (simp add: cfg0_def s_mid_def geom_defs corr_defs)

lemma pass_mid: "pass_to_next_goal cfg0 None (pose_at 1) (s_mid\<lparr>timer_P := 1\<rparr>) = Inr s_1"
  by (simp add: eval_defs s_1_def)

lemma exhausted_mid: "path_exhausted cfg0 s_mid = Inr False"
  by (simp add: path_exhausted_def cfg0_def s_mid_def py_index_def)

lemma s_mid_anchors [simp]:
  "T_0_odomA s_mid = Some (pose_at 0)" "T_0_odomB s_mid = Some (pose_at 1)"
  by (simp_all add: s_mid_def)

lemma tick_at_simps [simp]:
  "tick_time (tick_at now img x rec) = now"
  "tick_image (tick_at now img x rec) = Some img"
  "tick_odom (tick_at now img x rec) = Some (pose_at x)"
  "tick_record (tick_at now img x rec) = rec"
  "tick_odom_read (tick_at now img x rec) = pose_at x"
  by (simp_all add: tick_at_def)

lemma norm_pose_at [simp]: "t3d_norm (vsub (edt (pose_at x)) (edt (pose_at y))) = \<bar>x - y\<bar>"
  by (simp add: pose_at_def)

lemma cfg0_threshold [simp]: "distance_threshold cfg0 = 1 / 10"
  by (simp add: cfg0_def)

lemma iter_A:
  "run_iteration cfg0 ncc0 width0 ws (tick_at 1 1 1 None) s_mid = Inr (Continue, s_1)"
proof -
  have "cycle cfg0 ncc0 width0 ws (tick_at 1 1 1 None) 1 (pose_at 1) s_mid = Inr s_1"
    by (simp add: cycle_def Let_def ss_mid pass_mid)
  then show ?thesis
    by (simp add: run_iteration_def exhausted_mid)
qed

lemma s_1_anchors [simp]:
  "T_0_odomA s_1 = Some (pose_at 1)" "T_0_odomB s_1 = Some (pose_at 2)"
  by (simp_all add: s_1_def)

lemma scan_1: "scan_q_indices (along_path_radius cfg0) (q s_1) = Inr [0, 1, 2]"
  by (simp add: scan_q_indices_def present_indices_def s_1_def cfg0_def py_index_def upt_3)

lemma ss_1:
  "straight_segment cfg0 ncc0 width0 2 2 (pose_at 2) (pose_at 1) (pose_at 2) s_1
   = Inr (True, s_1\<lparr>timer_P := 2\<rparr>)"
  unfolding straight_segment_def
  by (simp add: scan_1 Let_def)
     (simp add: cfg0_def s_1_def geom_defs corr_defs)

lemma pass_1: "pass_to_next_goal cfg0 None (pose_at 2) (s_1\<lparr>timer_P := 2\<rparr>) = Inr s_2"
  by (simp add: eval_defs s_1_def s_2_def)

lemma exhausted_1: "path_exhausted cfg0 s_1 = Inr False"
  by (simp add: path_exhausted_def cfg0_def s_1_def py_index_def)

lemma exhausted_2: "path_exhausted cfg0 s_2 = Inr True"
  by (simp add: path_exhausted_def cfg0_def s_1_def s_2_def py_index_def)

lemma iter_B:
  "run_iteration cfg0 ncc0 width0 ws (tick_at 2 2 2 None) s_1 = Inr (Continue, s_2)"
proof -
  have "cycle cfg0 ncc0 width0 ws (tick_at 2 2 2 None) 2 (pose_at 2) s_1 = Inr s_2"
    by (simp add: cycle_def Let_def ss_1 pass_1)
  then show ?thesis
    by (simp add: run_iteration_def exhausted_1)
qed

lemma iter_C:
  "run_iteration cfg0 ncc0 width0 ws t s_2
   = Inr (Finished, s_2\<lparr>passed_goal := passed_goal s_2 @ [None]\<rparr>)"
  by (simp add: run_iteration_def exhausted_2)

lemma weights0: "padded_weights cfg0 = Inr [1, 1 / 2]"
  by (simp add: padded_weights_def cfg0_def max_rps_def)

lemma s_mid_timer: "s_mid\<lparr>timer_P := 0\<rparr> = s_mid"
  by (simp add: s_mid_def)

lemma run_example:
  "run cfg0 ncc0 width0 reads3 0 [tick_at 1 1 1 None, tick_at 2 2 2 None, tick_at 3 2 2 None]
   = Inr (Finished, s_2\<lparr>passed_goal := [Some 0, Some 1, Some 2, None]\<rparr>)"
  by (simp add: run_def weights0 warm_up_reads3 s_mid_timer iter_A iter_B iter_C)
     (simp add: s_2_def)





lemma fl_lt_PInf [simp]: "\<not> fl_lt PInf a"
  by (cases a) simp_all

lemma fl_lt_NaN2 [simp]: "\<not> fl_lt a NaN"
  by (cases a) simp_all







lemma ss_tie:
  "straight_segment cfg0 ncc0 width0 1 (1 / 2) (pose_at (1 / 2)) (pose_at 0) (pose_at 1) s_mid
   = Inl ValueError"
  unfolding straight_segment_def
  by (simp add: scan_mid Let_def)
     (simp add: cfg0_def s_mid_def geom_defs corr_defs)

lemma ncc_tie: "map (\<lambda>ref. snd (ncc0 (1 / 2) ref)) [0, 0, 1] = [2 / 3, 2 / 3, 2 / 3]"
  by (simp add: ncc0_def)

text \<open>
  C7: the claim is that a degenerate scan contributes a zero along-path correction and
  that the cycle completes. The code has no such fallback in the straight-segment phase.
  With three equal scores the suppression step of line 228 takes the maximum of an empty
  selection and the along-path correction ends with ValueError; the scores
  \<open>[1, -0.5, -0.5]\<close>, all kept and summing to zero, give NaN for the weighted distance of
  line 237 and for the correction. A whole iteration fails that way at the first goal,
  where the scan looks at the waypoints 0, 0 and 1, when the live image lies half way
  between the two and matches them equally.
\<close>

theorem degenerate_scan_fails:
  "along_path cfg0 1 [1, 1, 1] dists0 = Inl ValueError
   \<and> along_path cfg0 1 [1, - (1 / 2), - (1 / 2)] dists0 = Inr (NaN, NaN)
   \<and> scan_q_indices (along_path_radius cfg0) (q s_mid) = Inr [1, 1, 2]
   \<and> map (\<lambda>ref. snd (ncc0 (1 / 2) ref)) [0, 0, 1] = [2 / 3, 2 / 3, 2 / 3]
   \<and> run_iteration cfg0 ncc0 width0 [1, 1 / 2] (tick_at 1 (1 / 2) (1 / 2) None) s_mid
     = Inl ValueError"
proof -
  have "along_path cfg0 1 [1, 1, 1] dists0 = Inl ValueError
        \<and> along_path cfg0 1 [1, - (1 / 2), - (1 / 2)] dists0 = Inr (NaN, NaN)"
    by (simp add: along_path_def suppress_below_second_def np_max_def weighted_distance_def
        fl_dot_def fl_sub_def dists0_def inf_signed_def cfg0_def)
  moreover have "cycle cfg0 ncc0 width0 [1, 1 / 2] (tick_at 1 (1 / 2) (1 / 2) None) (1 / 2)
                   (pose_at (1 / 2)) s_mid = Inl ValueError"
    by (simp add: cycle_def Let_def ss_tie)
  then have "run_iteration cfg0 ncc0 width0 [1, 1 / 2] (tick_at 1 (1 / 2) (1 / 2) None) s_mid
             = Inl ValueError"
    by (simp add: run_iteration_def exhausted_mid)
  ultimately show ?thesis using scan_mid ncc_tie by simp
qed

section \<open>Path exhaustion, progress reports and commands\<close>

lemma path_exhausted_True:
  assumes "py_index (q s) (int (along_path_radius c)) = Inr (Some w)"
    and "py_index (q s) (int (along_path_radius c) + 1) = Inr None"
  shows "path_exhausted c s = Inr True"
  using assms by (simp add: path_exhausted_def)

text \<open>
  C6: in an iteration in which the window slot at the anchor offset \<open>r\<close> holds a waypoint
  and slot \<open>r + 1\<close> holds \<open>None\<close>, the controller writes \<open>None\<close> to the \<open>passed_goal\<close>
  port and leaves the loop without an exception; whatever iterations would follow do not
  take place, so the state, its goal index and its commands stay as they are.
\<close>

theorem path_exhaustion_ends_loop:
  assumes "py_index (q s) (int (along_path_radius c)) = Inr (Some w)"
    and "py_index (q s) (int (along_path_radius c) + 1) = Inr None"
  shows "run_iteration c ncc width weights t s
           = Inr (Finished, s\<lparr>passed_goal := passed_goal s @ [None]\<rparr>)
       \<and> main_loop c ncc width weights (t # ts) s
           = Inr (Finished, s\<lparr>passed_goal := passed_goal s @ [None]\<rparr>)"
  using path_exhausted_True[OF assms] by (simp add: run_iteration_def)

theorem path_exhaustion_ends_loop_witness:
  "py_index (q s_2) (int (along_path_radius cfg0)) = Inr (Some (2, pose_at 2))
   \<and> py_index (q s_2) (int (along_path_radius cfg0) + 1) = Inr None
   \<and> run_iteration cfg0 ncc0 width0 [1, 1 / 2] (tick_at 3 2 2 None) s_2
       = Inr (Finished, s_2\<lparr>passed_goal := passed_goal s_2 @ [None]\<rparr>)
   \<and> main_loop cfg0 ncc0 width0 [1, 1 / 2] [tick_at 3 2 2 None, tick_at 4 2 2 None] s_2
       = Inr (Finished, s_2\<lparr>passed_goal := passed_goal s_2 @ [None]\<rparr>)"
proof -
  have a: "py_index (q s_2) (int (along_path_radius cfg0)) = Inr (Some (2, pose_at 2))"
    and b: "py_index (q s_2) (int (along_path_radius cfg0) + 1) = Inr None"
    by (simp_all add: s_2_def s_1_def cfg0_def py_index_def)
  from path_exhaustion_ends_loop[OF a b, of ncc0 width0 "[1, 1 / 2]" "tick_at 3 2 2 None"
      "[tick_at 4 2 2 None]"] a b
  show ?thesis by blast
qed

lemma run_iteration_cases:
  assumes "run_iteration c ncc width weights t s = Inr (out, s')"
  shows "(out = Finished \<and> s' = s\<lparr>passed_goal := passed_goal s @ [None]\<rparr>)
         \<or> (out = Continue \<and> s' = s)
         \<or> (out = Continue \<and> (\<exists>live R. cycle c ncc width weights t live R s = Inr s'))"
  using assms
  by (auto simp: run_iteration_def bindE_Inr split: if_splits option.splits)

lemma cycle_pg:
  assumes "cycle c ncc width weights t live R s = Inr s'" and "pg_inv s"
  shows "pg_inv s' \<and> goal_idx s \<le> goal_idx s'"
proof -
  from cycle_cases[OF assms(1)] consider
    (advance) s1 where "s1 = s \<or> s1 = s\<lparr>timer_P := tick_time t\<rparr>"
      "pass_to_next_goal c (tick_record t) (tick_odom_read t) s1 = Inr s'"
  | (command) s1 where "passed_goal s1 = passed_goal s" "goal_idx s1 = goal_idx s"
      "control_law c weights R s1 = Inr s'"
    by blast
  then show ?thesis
  proof cases
    case advance
    from advance(1) assms(2) have "pg_inv s1" "goal_idx s1 = goal_idx s"
      by (auto simp: pg_inv_def)
    with pass_to_next_goal_pg_inv[OF advance(2)] pass_to_next_goal_cursor(1)[OF advance(2)]
    show ?thesis by simp
  next
    case command
    with control_law_fields(1,2)[OF command(3)] assms(2) show ?thesis
      by (simp add: pg_inv_def)
  qed
qed

lemma main_loop_pg:
  "main_loop c ncc width weights ticks s = Inr (out, s') \<Longrightarrow> pg_inv s \<Longrightarrow> 0 \<le> goal_idx s
   \<Longrightarrow> 0 \<le> goal_idx s'
       \<and> passed_goal s' = map Some [0 .. goal_idx s'] @ (if out = Finished then [None] else [])"
proof (induction ticks arbitrary: s)
  case Nil
  then show ?case by (auto simp: pg_inv_def)
next
  case (Cons t ticks)
  from Cons.prems(1) obtain o1 s1 where it: "run_iteration c ncc width weights t s = Inr (o1, s1)"
    and rest: "(case o1 of Finished \<Rightarrow> Inr (Finished, s1)
                | Continue \<Rightarrow> main_loop c ncc width weights ticks s1) = Inr (out, s')"
    by (auto simp: bindE_Inr)
  from run_iteration_cases[OF it] consider
    (fin) "o1 = Finished" "s1 = s\<lparr>passed_goal := passed_goal s @ [None]\<rparr>"
  | (idle) "o1 = Continue" "s1 = s"
  | (work) live R where "o1 = Continue" "cycle c ncc width weights t live R s = Inr s1"
    by blast
  then show ?case
  proof cases
    case fin
    with rest Cons.prems(2,3) show ?thesis by (auto simp: pg_inv_def)
  next
    case idle
    with rest Cons.IH[of s] Cons.prems(2,3) show ?thesis by simp
  next
    case work
    from cycle_pg[OF work(2) Cons.prems(2)] Cons.prems(3)
    have "pg_inv s1" "0 \<le> goal_idx s1" by auto
    with rest work(1) Cons.IH[of s1] show ?thesis by simp
  qed
qed

text \<open>
  C10: the goal index starts negative; every successful advance increases it by exactly
  one and writes it to the \<open>passed_goal\<close> port if and only if it is not negative; and
  after \<open>run\<close>, over any number of iterations, the values written to the port are the
  goal indices \<open>0, 1, ..., goal_idx\<close> in order, followed by the terminal \<open>None\<close> exactly
  when the loop has ended on path exhaustion.
\<close>

theorem passed_goal_values:
  "goal_idx (init_controller c :: 'img controller) < 0
   \<and> (\<forall>rec od (s :: 'img controller) s'.
         pass_to_next_goal c rec od s = Inr s' \<longrightarrow>
           goal_idx s' = goal_idx s + 1
           \<and> passed_goal s' = passed_goal s @ (if 0 \<le> goal_idx s' then [Some (goal_idx s')] else []))
   \<and> (\<forall>ncc width reads t0 ticks out (s :: 'img controller).
         run c ncc width reads t0 ticks = Inr (out, s) \<longrightarrow>
           0 \<le> goal_idx s
           \<and> passed_goal s = map Some [0 .. goal_idx s] @ (if out = Finished then [None] else []))"
proof (intro conjI allI impI)
  show "goal_idx (init_controller c :: 'img controller) < 0"
    by (simp add: init_controller_def)
next
  fix rec od and s s' :: "'img controller"
  assume p: "pass_to_next_goal c rec od s = Inr s'"
  from pass_to_next_goal_cursor(1,2)[OF p]
  show "goal_idx s' = goal_idx s + 1"
    and "passed_goal s' = passed_goal s @ (if 0 \<le> goal_idx s' then [Some (goal_idx s')] else [])"
    by simp_all
next
  fix ncc width reads t0 ticks out and s :: "'img controller"
  assume r: "run c ncc width reads t0 ticks = Inr (out, s)"
  then obtain weights s0 where w: "warm_up c reads (init_controller c) = Inr (s0 :: 'img controller)"
    and m: "main_loop c ncc width weights ticks (s0\<lparr>timer_P := t0\<rparr>) = Inr (out, s)"
    by (auto simp: run_def bindE_Inr)
  from warm_up_pg_inv[OF w init_pg_inv] have "pg_inv (s0\<lparr>timer_P := t0\<rparr>)"
    "0 \<le> goal_idx (s0\<lparr>timer_P := t0\<rparr>)"
    by (simp_all add: pg_inv_def)
  from main_loop_pg[OF m this]
  show "0 \<le> goal_idx s"
    and "passed_goal s = map Some [0 .. goal_idx s] @ (if out = Finished then [None] else [])"
    by simp_all
qed

theorem passed_goal_values_witness:
  "run cfg0 ncc0 width0 reads3 0 [tick_at 1 1 1 None, tick_at 2 2 2 None, tick_at 3 2 2 None]
     = Inr (Finished, s_2\<lparr>passed_goal := [Some 0, Some 1, Some 2, None]\<rparr>)
   \<and> 0 \<le> goal_idx (s_2\<lparr>passed_goal := [Some 0, Some 1, Some 2, None]\<rparr>)
   \<and> passed_goal (s_2\<lparr>passed_goal := [Some 0, Some 1, Some 2, None]\<rparr>)
       = map Some [0 .. goal_idx (s_2\<lparr>passed_goal := [Some 0, Some 1, Some 2, None]\<rparr>)] @ [None]
   \<and> pass_to_next_goal cfg0 None (pose_at 1) (s_mid\<lparr>timer_P := 1\<rparr>) = Inr s_1
   \<and> goal_idx s_1 = goal_idx (s_mid\<lparr>timer_P := 1\<rparr>) + 1"
proof -
  note t = passed_goal_values[of cfg0, where 'img = real]
  from t run_example
  have "0 \<le> goal_idx (s_2\<lparr>passed_goal := [Some 0, Some 1, Some 2, None]\<rparr>)
   \<and> passed_goal (s_2\<lparr>passed_goal := [Some 0, Some 1, Some 2, None]\<rparr>)
       = map Some [0 .. goal_idx (s_2\<lparr>passed_goal := [Some 0, Some 1, Some 2, None]\<rparr>)]
         @ (if Finished = Finished then [None] else [])"
    by blast
  moreover from t pass_mid have "goal_idx s_1 = goal_idx (s_mid\<lparr>timer_P := 1\<rparr>) + 1"
    by blast
  ultimately show ?thesis using run_example pass_mid by simp
qed

lemma steering_w_not_nan: "\<not> is_nan (steering_w c xy)"
  by (cases xy) (simp add: steering_w_def Let_def)

lemma weighted_w_not_nan: "\<not> is_nan (weighted_w wq ws)"
  by (simp add: weighted_w_def Let_def)







end
